theory Spec2Isabelle
  imports Main
begin

section \<open>JavaScript values as the dispatch layer sees them\<close>

text \<open>
  The helper of \<^verbatim>\<open>graph-api-helper.ts\<close> handles payloads typed \<^verbatim>\<open>any\<close>: parsed JSON,
  plus \<^verbatim>\<open>undefined\<close> for an absent body or property. An object is an association list
  in which the first binding of a key is the one a property read sees. Numbers are kept as
  integers: the helper only tests a number for truthiness and prints it into messages.
\<close>

datatype jsval =
    JUndefined
  | JNull
  | JBool bool
  | JNum int
  | JStr string
  | JArr "jsval list"
  | JObj "(string \<times> jsval) list"

text \<open>Truthiness, as \<^verbatim>\<open>if (x)\<close>, \<^verbatim>\<open>!x\<close>, \<^verbatim>\<open>x && y\<close> and \<^verbatim>\<open>x || y\<close> test it.\<close>

fun truthy :: "jsval \<Rightarrow> bool" where
  "truthy JUndefined = False"
| "truthy JNull = False"
| "truthy (JBool b) = b"
| "truthy (JNum n) = (n \<noteq> 0)"
| "truthy (JStr s) = (s \<noteq> [])"
| "truthy (JArr xs) = True"
| "truthy (JObj kvs) = True"

text \<open>
  The \<^verbatim>\<open>body\<close> property of a thrown value, as the \<^verbatim>\<open>catch\<close> block of \<^verbatim>\<open>callGraphApi\<close> reads it
  (\<^verbatim>\<open>error.body ? (typeof error.body === 'string' ? error.body : JSON.stringify(error.body))
  : 'N/A'\<close>): falsy or absent, a string, a value that \<^verbatim>\<open>JSON.stringify\<close> serializes, or a value
  on which \<^verbatim>\<open>JSON.stringify\<close> throws a \<^verbatim>\<open>TypeError\<close> with the given message (a circular
  structure, a \<^verbatim>\<open>BigInt\<close>).
\<close>

datatype error_body =
    FalsyBody
  | StringBody string
  | JsonBody jsval
  | UnserializableBody string

text \<open>
  A thrown value other than \<^verbatim>\<open>null\<close> and \<^verbatim>\<open>undefined\<close>, with what the \<^verbatim>\<open>catch\<close> blocks read from
  it: whether it is an \<^verbatim>\<open>Error\<close> instance, its \<^verbatim>\<open>message\<close> as a template prints it,
  \<^verbatim>\<open>String(error)\<close>, its \<^verbatim>\<open>statusCode\<close> property and its \<^verbatim>\<open>body\<close> property. A thrown string or
  number has these readings too (no \<^verbatim>\<open>statusCode\<close>, no \<^verbatim>\<open>body\<close>).
\<close>

record js_thrown =
  instanceof_Error :: bool
  message :: string
  as_String :: string
  thrown_statusCode :: jsval
  thrown_body :: error_body

text \<open>
  Anything a \<^verbatim>\<open>throw\<close> or a rejected promise can carry into a \<^verbatim>\<open>catch (error: any)\<close>:
  \<^verbatim>\<open>null\<close>, \<^verbatim>\<open>undefined\<close>, or a value with the readings above.
\<close>

datatype thrown_value = ThrownNull | ThrownUndefined | Thrown js_thrown

text \<open>\<^verbatim>\<open>new Error(msg)\<close>.\<close>

definition new_Error :: "string \<Rightarrow> js_thrown" where
  "new_Error msg =
     \<lparr>instanceof_Error = True, message = msg, as_String = ''Error: '' @ msg,
      thrown_statusCode = JUndefined, thrown_body = FalsyBody\<rparr>"

text \<open>A \<^verbatim>\<open>TypeError\<close> with the given message.\<close>

definition new_TypeError :: "string \<Rightarrow> js_thrown" where
  "new_TypeError msg =
     \<lparr>instanceof_Error = True, message = msg, as_String = ''TypeError: '' @ msg,
      thrown_statusCode = JUndefined, thrown_body = FalsyBody\<rparr>"

text \<open>The \<^verbatim>\<open>TypeError\<close> of Node for a property read on \<^verbatim>\<open>null\<close> or \<^verbatim>\<open>undefined\<close>.\<close>

definition nullish_TypeError :: "string \<Rightarrow> string \<Rightarrow> js_thrown" where
  "nullish_TypeError what key =
     (let msg = ''Cannot read properties of '' @ what @ '' (reading '' @ [CHR 0x27] @ key
                  @ [CHR 0x27] @ '')''
      in \<lparr>instanceof_Error = True, message = msg, as_String = ''TypeError: '' @ msg,
          thrown_statusCode = JUndefined, thrown_body = FalsyBody\<rparr>)"

text \<open>
  A property read \<^verbatim>\<open>v.key\<close> or \<^verbatim>\<open>v[key]\<close>, for the keys the helper reads (\<^verbatim>\<open>value\<close>,
  \<^verbatim>\<open>nextLink\<close>, \<^verbatim>\<open>@odata.nextLink\<close>, \<^verbatim>\<open>@odata.context\<close>): it throws on \<^verbatim>\<open>null\<close> and \<^verbatim>\<open>undefined\<close>,
  finds the binding in an object, and is \<^verbatim>\<open>undefined\<close> on every other value, none of these
  keys being a property of a string, number, boolean or array.
\<close>

fun get_prop :: "jsval \<Rightarrow> string \<Rightarrow> js_thrown + jsval" where
  "get_prop JUndefined k = Inl (nullish_TypeError ''undefined'' k)"
| "get_prop JNull k = Inl (nullish_TypeError ''null'' k)"
| "get_prop (JObj kvs) k = Inr (case map_of kvs k of Some v \<Rightarrow> v | None \<Rightarrow> JUndefined)"
| "get_prop v k = Inr JUndefined"

text \<open>\<^verbatim>\<open>Array.isArray\<close>.\<close>

fun isArray :: "jsval \<Rightarrow> bool" where
  "isArray (JArr xs) = True"
| "isArray v = False"

section \<open>hasMorePages\<close>

datatype api_type = Graph | Azure

text \<open>
  \<^verbatim>\<open>const nextLinkKey = apiType === 'graph' ? '@odata.nextLink' : 'nextLink';
  return data && data[nextLinkKey] ? true : false;\<close>
  The result is \<open>Inl\<close> where the source would throw.
\<close>

definition nextLinkKey :: "api_type \<Rightarrow> string" where
  "nextLinkKey apiType = (if apiType = Graph then ''@odata.nextLink'' else ''nextLink'')"

definition hasMorePages :: "jsval \<Rightarrow> api_type \<Rightarrow> js_thrown + bool" where
  "hasMorePages data apiType =
     (if truthy data
      then (case get_prop data (nextLinkKey apiType) of
              Inl e \<Rightarrow> Inl e
            | Inr v \<Rightarrow> Inr (if truthy v then True else False))
      else Inr False)"

text \<open>
  The specification's reading, for comparison: the payload has the cursor key, bound to a
  truthy value. Only an object has keys.
\<close>

fun cursor_present_truthy :: "jsval \<Rightarrow> string \<Rightarrow> bool" where
  "cursor_present_truthy (JObj kvs) k = (case map_of kvs k of Some v \<Rightarrow> truthy v | None \<Rightarrow> False)"
| "cursor_present_truthy v k = False"

section \<open>Printing values into messages\<close>

text \<open>A number in a template literal: \<^verbatim>\<open>`${pageResponse.status}`\<close>.\<close>

fun show_nat :: "nat \<Rightarrow> string" where
  "show_nat n =
     (if n < 10 then [''0123456789'' ! n]
      else show_nat (n div 10) @ [''0123456789'' ! (n mod 10)])"

declare show_nat.simps [simp del]

definition show_int :: "int \<Rightarrow> string" where
  "show_int i = (if i < 0 then ''-'' @ show_nat (nat (- i)) else show_nat (nat i))"

text \<open>
  \<^verbatim>\<open>String(v)\<close>, which a template literal applies to \<^verbatim>\<open>currentUrl\<close>: a string is itself, an
  array joins its elements with commas (\<^verbatim>\<open>null\<close> and \<^verbatim>\<open>undefined\<close> elements print empty), a
  plain object is \<^verbatim>\<open>[object Object]\<close>.
\<close>

fun js_String :: "jsval \<Rightarrow> string"
  and js_join :: "jsval list \<Rightarrow> string" where
  "js_String JUndefined = ''undefined''"
| "js_String JNull = ''null''"
| "js_String (JBool b) = (if b then ''true'' else ''false'')"
| "js_String (JNum n) = show_int n"
| "js_String (JStr s) = s"
| "js_String (JArr xs) = js_join xs"
| "js_String (JObj kvs) = ''[object Object]''"
| "js_join [] = []"
| "js_join [x] = (if x = JNull \<or> x = JUndefined then [] else js_String x)"
| "js_join (x # y # ys) =
     (if x = JNull \<or> x = JUndefined then [] else js_String x) @ '','' @ js_join (y # ys)"

section \<open>The result shape and the collaborators\<close>

text \<open>
  \<^verbatim>\<open>ApiResponse\<close>: \<open>error\<close> and \<open>statusCode\<close> are \<open>None\<close> where the object has no such key or
  holds \<^verbatim>\<open>undefined\<close> there.
\<close>

record ApiResponse =
  data :: jsval
  error :: "string option"
  statusCode :: "jsval option"

text \<open>The success return \<^verbatim>\<open>{ data: responseData }\<close>.\<close>

definition api_success :: "jsval \<Rightarrow> ApiResponse" where
  "api_success responseData = \<lparr>data = responseData, error = None, statusCode = None\<rparr>"

text \<open>
  The object both \<^verbatim>\<open>catch\<close> blocks return for a thrown value that is not \<^verbatim>\<open>null\<close> or
  \<^verbatim>\<open>undefined\<close>:
  \<^verbatim>\<open>{ data: null, error: error instanceof Error ? error.message : String(error),
    statusCode: error.statusCode || undefined }\<close>.
\<close>

definition api_failure :: "js_thrown \<Rightarrow> ApiResponse" where
  "api_failure e =
     \<lparr>data = JNull,
      error = Some (if instanceof_Error e then message e else as_String e),
      statusCode = (if truthy (thrown_statusCode e) then Some (thrown_statusCode e) else None)\<rparr>"

text \<open>
  How a call of the helper ends: its promise resolves with an \<^verbatim>\<open>ApiResponse\<close>, or it rejects
  with what a \<^verbatim>\<open>catch\<close> block itself has thrown.
\<close>

datatype call_outcome = Returns ApiResponse | Raises js_thrown

text \<open>
  The \<^verbatim>\<open>catch\<close> block of \<^verbatim>\<open>callGraphApi\<close> (lines 155 to 166). It first computes \<^verbatim>\<open>errorBody\<close>
  (never used afterwards): reading \<^verbatim>\<open>error.body\<close> throws on \<^verbatim>\<open>null\<close> and \<^verbatim>\<open>undefined\<close>, and
  \<^verbatim>\<open>JSON.stringify(error.body)\<close> throws on a body it cannot serialize. Nothing catches these.
\<close>

fun graph_catch :: "thrown_value \<Rightarrow> call_outcome" where
  "graph_catch ThrownNull = Raises (nullish_TypeError ''null'' ''body'')"
| "graph_catch ThrownUndefined = Raises (nullish_TypeError ''undefined'' ''body'')"
| "graph_catch (Thrown e) =
     (case thrown_body e of
        UnserializableBody msg \<Rightarrow> Raises (new_TypeError msg)
      | _ \<Rightarrow> Returns (api_failure e))"

text \<open>
  The \<^verbatim>\<open>catch\<close> block of \<^verbatim>\<open>callAzureApi\<close> (lines 292 to 300). \<^verbatim>\<open>error instanceof Error\<close> and
  \<^verbatim>\<open>String(error)\<close> accept every value; reading \<^verbatim>\<open>error.statusCode\<close> throws on \<^verbatim>\<open>null\<close> and
  \<^verbatim>\<open>undefined\<close>.
\<close>

fun azure_catch :: "thrown_value \<Rightarrow> call_outcome" where
  "azure_catch ThrownNull = Raises (nullish_TypeError ''null'' ''statusCode'')"
| "azure_catch ThrownUndefined = Raises (nullish_TypeError ''undefined'' ''statusCode'')"
| "azure_catch (Thrown e) = Returns (api_failure e)"

datatype http_method = GET | POST | PUT | PATCH | DELETE

datatype graph_version = V1_0 | Beta

text \<open>\<^verbatim>\<open>method.toUpperCase()\<close> on the five method names.\<close>

fun toUpperCase :: "http_method \<Rightarrow> string" where
  "toUpperCase GET = ''GET''"
| "toUpperCase POST = ''POST''"
| "toUpperCase PUT = ''PUT''"
| "toUpperCase PATCH = ''PATCH''"
| "toUpperCase DELETE = ''DELETE''"

text \<open>
  A request as the Graph SDK's fluent builder has assembled it when a verb method
  (\<^verbatim>\<open>get\<close>, \<^verbatim>\<open>post\<close>, ...) sends it: \<^verbatim>\<open>client.api(path).version(v).query(q).header(k, c)\<close>.
\<close>

record graph_request =
  gr_path :: string
  gr_version :: graph_version
  gr_query :: "(string \<times> string) list option"
  gr_headers :: "(string \<times> string) list"
  gr_verb :: http_method
  gr_body :: "jsval option"

text \<open>The \<^verbatim>\<open>RequestInit\<close> handed to \<^verbatim>\<open>fetch\<close>, and what the helper reads of a \<^verbatim>\<open>Response\<close>.\<close>

record RequestInit =
  ri_method :: string
  ri_headers :: "(string \<times> string) list"
  ri_body :: "string option"

record http_response =
  ok :: bool
  status :: nat
  body_text :: string

type_synonym azure_request = "jsval \<times> RequestInit"

text \<open>
  Everything outside the helper that one call talks to. A reply is \<open>Inl\<close> when the
  collaborator throws (or its promise rejects), with the value thrown.
  \<^item> \<open>graph_send\<close>: the SDK sending a built request and returning the parsed body;
  \<^item> \<open>getAzureCredential\<close>: the accessor of the authentication manager;
  \<^item> \<open>getToken k\<close>: the reply to the \<open>k\<close>-th \<^verbatim>\<open>azureCredential.getToken\<close> of the call, \<open>None\<close>
    for \<^verbatim>\<open>null\<close>, else the \<^verbatim>\<open>token\<close> field;
  \<^item> \<open>fetch k url init\<close>: the reply to the \<open>k\<close>-th \<^verbatim>\<open>fetch\<close> of the call with its body text
    read (\<^verbatim>\<open>await response.text()\<close> follows each fetch at once);
  \<^item> \<open>JSON_parse\<close> (\<open>None\<close> for a \<^verbatim>\<open>SyntaxError\<close>), \<open>JSON_stringify\<close>, and
    \<open>URLSearchParams_toString\<close> on the list of appended pairs.
\<close>

record world =
  graph_send :: "graph_request \<Rightarrow> thrown_value + jsval"
  getAzureCredential :: "thrown_value + unit"
  getToken :: "nat \<Rightarrow> thrown_value + string option"
  fetch :: "nat \<Rightarrow> jsval \<Rightarrow> RequestInit \<Rightarrow> thrown_value + http_response"
  JSON_parse :: "string \<Rightarrow> jsval option"
  JSON_stringify :: "jsval \<Rightarrow> string"
  URLSearchParams_toString :: "(string \<times> string) list \<Rightarrow> string"

section \<open>The authentication manager\<close>

datatype AuthMode = ClientCredentials | Certificate | Interactive | ClientProvidedToken

text \<open>\<^verbatim>\<open>new Date(isoString)\<close>, kept as the string it was built from.\<close>

datatype js_date = Date string

text \<open>
  Modelled from the spec: the class \<^verbatim>\<open>AuthManager\<close> of \<^verbatim>\<open>auth.ts\<close> is not among the sources.
  Its state is the mode and the token state of the data model: the current bearer token
  (absent only in \<open>ClientProvidedToken\<close> mode before the first injection) and the expiry
  (absent when unknown).
\<close>

record AuthManager =
  mode :: AuthMode
  accessToken :: "string option"
  expiresOn :: "js_date option"

text \<open>Modelled from the spec: \<^verbatim>\<open>getAuthMode()\<close> returns the active mode, without side effects.\<close>

definition getAuthMode :: "AuthManager \<Rightarrow> AuthMode" where
  "getAuthMode am = mode am"

text \<open>
  Modelled from the spec: \<^verbatim>\<open>updateAccessToken(token, expiry?)\<close> is valid only in
  \<open>ClientProvidedToken\<close> mode, where it replaces the held token and the optional expiry
  together; in every other mode it signals \<^verbatim>\<open>InvalidOperationError\<close> and there is no new
  state.
\<close>

definition InvalidOperationError :: js_thrown where
  "InvalidOperationError =
     \<lparr>instanceof_Error = True,
      message = ''updateAccessToken is only valid in ClientProvidedToken mode'',
      as_String = ''InvalidOperationError: updateAccessToken is only valid in ClientProvidedToken mode'',
      thrown_statusCode = JUndefined, thrown_body = FalsyBody\<rparr>"

definition updateAccessToken ::
  "AuthManager \<Rightarrow> string \<Rightarrow> js_date option \<Rightarrow> js_thrown + AuthManager" where
  "updateAccessToken am token expiry =
     (if mode am = ClientProvidedToken
      then Inr (am\<lparr>accessToken := Some token, expiresOn := expiry\<rparr>)
      else Inl InvalidOperationError)"

text \<open>
  Modelled from the spec: \<^verbatim>\<open>getGraphAuthProvider()\<close> exposes the manager's token capability
  in the shape the Graph client expects and adds no state. The SDK's
  \<^verbatim>\<open>Client.initWithMiddleware({ authProvider })\<close> wraps that provider.
\<close>

datatype auth_provider = GraphAuthProvider AuthManager

definition getGraphAuthProvider :: "AuthManager \<Rightarrow> auth_provider" where
  "getGraphAuthProvider am = GraphAuthProvider am"

datatype Client = initWithMiddleware auth_provider

section \<open>GraphApiHelper\<close>

record GraphApiHelper =
  graphClient :: "Client option"
  authManager :: "AuthManager option"
  useGraphBeta :: bool
  defaultGraphApiVersion :: graph_version

text \<open>
  \<^verbatim>\<open>GraphApiCallParams\<close>. An optional field is \<open>None\<close> when absent; \<open>g_body\<close> is
  \<open>JUndefined\<close> when absent. \<open>queryParams\<close> lists the entries of the record in the order
  \<^verbatim>\<open>Object.keys\<close> gives them.
\<close>

record GraphApiCallParams =
  g_path :: string
  g_method :: http_method
  g_queryParams :: "(string \<times> string) list option"
  g_body :: jsval
  graphApiVersion :: "graph_version option"
  g_fetchAll :: "bool option"
  consistencyLevel :: "string option"

record AzureApiCallParams =
  az_path :: string
  az_method :: http_method
  apiVersion :: string
  subscriptionId :: "string option"
  az_queryParams :: "(string \<times> string) list option"
  az_body :: jsval
  az_fetchAll :: "bool option"

text \<open>The default \<^verbatim>\<open>fetchAll = false\<close> of both destructurings.\<close>

definition flag :: "bool option \<Rightarrow> bool" where
  "flag b = (case b of Some v \<Rightarrow> v | None \<Rightarrow> False)"

subsection \<open>callGraphApi\<close>

text \<open>
  \<^verbatim>\<open>graphApiVersion = this.defaultGraphApiVersion\<close> in the destructuring, then
  \<^verbatim>\<open>const effectiveGraphApiVersion = !this.useGraphBeta ? "v1.0" : graphApiVersion;\<close>
\<close>

definition effectiveGraphApiVersion :: "GraphApiHelper \<Rightarrow> GraphApiCallParams \<Rightarrow> graph_version" where
  "effectiveGraphApiVersion h p =
     (if \<not> useGraphBeta h then V1_0
      else (case graphApiVersion p of Some v \<Rightarrow> v | None \<Rightarrow> defaultGraphApiVersion h))"

text \<open>
  Lines 75 to 86: the request with its version, the query only when \<^verbatim>\<open>queryParams\<close> has
  keys, the \<^verbatim>\<open>ConsistencyLevel\<close> header only when the parameter is a non-empty string.
\<close>

definition build_request ::
  "GraphApiHelper \<Rightarrow> GraphApiCallParams \<Rightarrow> http_method \<Rightarrow> jsval option \<Rightarrow> graph_request" where
  "build_request h p verb payload =
     \<lparr>gr_path = g_path p,
      gr_version = effectiveGraphApiVersion h p,
      gr_query = (case g_queryParams p of
                    Some q \<Rightarrow> if q \<noteq> [] then Some q else None
                  | None \<Rightarrow> None),
      gr_headers = (case consistencyLevel p of
                      Some c \<Rightarrow> if c \<noteq> [] then [(''ConsistencyLevel'', c)] else []
                    | None \<Rightarrow> []),
      gr_verb = verb,
      gr_body = payload\<rparr>"

text \<open>\<^verbatim>\<open>body ?? {}\<close>.\<close>

definition body_or_empty :: "jsval \<Rightarrow> jsval" where
  "body_or_empty b = (if b = JUndefined \<or> b = JNull then JObj [] else b)"

text \<open>The elements of \<^verbatim>\<open>Array.isArray(x) ? x : []\<close>.\<close>

fun array_or_empty :: "jsval \<Rightarrow> jsval list" where
  "array_or_empty (JArr xs) = xs"
| "array_or_empty v = []"

text \<open>
  The \<^verbatim>\<open>fetchAll\<close> branch of \<^verbatim>\<open>case 'get'\<close> (lines 93 to 124). The first page is read once;
  the first property read, \<^verbatim>\<open>firstPageResponse.value\<close> in the log call, throws on a nullish
  page. Whatever is thrown inside is rethrown by the inner \<^verbatim>\<open>catch\<close>. The next link is only
  logged.
\<close>

text \<open>
  The inner \<^verbatim>\<open>catch (fetchAllError)\<close> (lines 121 to 124):
  \<^verbatim>\<open>throw new Error(`FetchAll failed: ${fetchAllError.message}`)\<close>. Reading \<^verbatim>\<open>message\<close> throws on
  \<^verbatim>\<open>null\<close> and \<^verbatim>\<open>undefined\<close>, and that \<^verbatim>\<open>TypeError\<close> goes to the outer \<^verbatim>\<open>catch\<close> instead.
\<close>

fun rethrow_fetchAll :: "thrown_value \<Rightarrow> thrown_value" where
  "rethrow_fetchAll ThrownNull = Thrown (nullish_TypeError ''null'' ''message'')"
| "rethrow_fetchAll ThrownUndefined = Thrown (nullish_TypeError ''undefined'' ''message'')"
| "rethrow_fetchAll (Thrown fetchAllError) =
     Thrown (new_Error (''FetchAll failed: '' @ message fetchAllError))"

definition graph_fetchAll :: "world \<Rightarrow> graph_request \<Rightarrow> thrown_value + jsval" where
  "graph_fetchAll w request =
     (case graph_send w request of
        Inl fetchAllError \<Rightarrow> Inl (rethrow_fetchAll fetchAllError)
      | Inr firstPageResponse \<Rightarrow>
          (case get_prop firstPageResponse ''value'' of
             Inl fetchAllError \<Rightarrow> Inl (rethrow_fetchAll (Thrown fetchAllError))
           | Inr v \<Rightarrow>
               (case get_prop firstPageResponse ''@odata.context'' of
                  Inl fetchAllError \<Rightarrow> Inl (rethrow_fetchAll (Thrown fetchAllError))
                | Inr odataContext \<Rightarrow>
                    Inr (JObj [(''@odata.context'', odataContext),
                               (''value'', JArr (array_or_empty v))]))))"

text \<open>
  The \<^verbatim>\<open>switch\<close> on the method (lines 91 to 149), with the requests it sends. The method
  type has the five cases only, so the \<^verbatim>\<open>default\<close> branch has no input.
\<close>

definition graph_switch ::
  "world \<Rightarrow> GraphApiHelper \<Rightarrow> GraphApiCallParams \<Rightarrow> (thrown_value + jsval) \<times> graph_request list" where
  "graph_switch w h p =
     (case g_method p of
        GET \<Rightarrow>
          (let request = build_request h p GET None in
           if flag (g_fetchAll p) then (graph_fetchAll w request, [request])
           else (graph_send w request, [request]))
      | POST \<Rightarrow>
          (let request = build_request h p POST (Some (body_or_empty (g_body p)))
           in (graph_send w request, [request]))
      | PUT \<Rightarrow>
          (let request = build_request h p PUT (Some (body_or_empty (g_body p)))
           in (graph_send w request, [request]))
      | PATCH \<Rightarrow>
          (let request = build_request h p PATCH (Some (body_or_empty (g_body p)))
           in (graph_send w request, [request]))
      | DELETE \<Rightarrow>
          (let request = build_request h p DELETE None in
           (case graph_send w request of
              Inl e \<Rightarrow> Inl e
            | Inr responseData \<Rightarrow>
                if responseData = JUndefined \<or> responseData = JNull
                then Inr (JObj [(''status'', JStr ''Success (No Content)'')])
                else Inr responseData,
            [request])))"

text \<open>
  \<^verbatim>\<open>callGraphApi\<close>: how the call ends, together with the requests sent through the SDK, in
  order. Everything thrown in the \<^verbatim>\<open>try\<close> block goes through the \<^verbatim>\<open>catch\<close> block.
\<close>

definition callGraphApi ::
  "world \<Rightarrow> GraphApiHelper \<Rightarrow> GraphApiCallParams \<Rightarrow> call_outcome \<times> graph_request list" where
  "callGraphApi w h p =
     (case graphClient h of
        None \<Rightarrow> (graph_catch (Thrown (new_Error ''Graph client not initialized'')), [])
      | Some client \<Rightarrow>
          (case graph_switch w h p of
             (Inl e, sent) \<Rightarrow> (graph_catch e, sent)
           | (Inr responseData, sent) \<Rightarrow> (Returns (api_success responseData), sent)))"

subsection \<open>callAzureApi\<close>

text \<open>Lines 199 to 212: base URL, optional subscription segment, path, query string.\<close>

definition azure_url :: "world \<Rightarrow> AzureApiCallParams \<Rightarrow> string" where
  "azure_url w p =
     ''https://management.azure.com''
     @ (case subscriptionId p of
          Some s \<Rightarrow> if s \<noteq> [] then ''/subscriptions/'' @ s else []
        | None \<Rightarrow> [])
     @ az_path p
     @ ''?''
     @ URLSearchParams_toString w
         ((''api-version'', apiVersion p)
          # (case az_queryParams p of Some q \<Rightarrow> q | None \<Rightarrow> []))"

definition azure_headers :: "string \<Rightarrow> (string \<times> string) list" where
  "azure_headers token =
     [(''Authorization'', ''Bearer '' @ token), (''Content-Type'', ''application/json'')]"

text \<open>
  Lines 219 to 225: a body is attached to POST, PUT and PATCH only,
  \<^verbatim>\<open>body ? JSON.stringify(body) : JSON.stringify({})\<close>.
\<close>

definition azure_requestOptions ::
  "world \<Rightarrow> AzureApiCallParams \<Rightarrow> (string \<times> string) list \<Rightarrow> RequestInit" where
  "azure_requestOptions w p headers =
     \<lparr>ri_method = toUpperCase (az_method p),
      ri_headers = headers,
      ri_body = (if az_method p = POST \<or> az_method p = PUT \<or> az_method p = PATCH
                 then Some (if truthy (az_body p) then JSON_stringify w (az_body p)
                            else JSON_stringify w (JObj []))
                 else None)\<rparr>"

text \<open>
  \<^verbatim>\<open>try { x = text ? JSON.parse(text) : {}; } catch (e) { x = { rawResponse: text }; }\<close>,
  the same on a page of the loop and on the single fetch.
\<close>

definition parse_body :: "world \<Rightarrow> string \<Rightarrow> jsval" where
  "parse_body w t =
     (if t \<noteq> []
      then (case JSON_parse w t of
              Some v \<Rightarrow> v
            | None \<Rightarrow> JObj [(''rawResponse'', JStr t)])
      else JObj [])"

text \<open>\<^verbatim>\<open>{ ...headers, 'Authorization': v }\<close>: the key keeps its place, or is added at the end.\<close>

fun with_header :: "(string \<times> string) list \<Rightarrow> string \<Rightarrow> string \<Rightarrow> (string \<times> string) list" where
  "with_header [] k v = [(k, v)]"
| "with_header ((k', v') # hs) k v =
     (if k' = k then (k, v) # hs else (k', v') # with_header hs k v)"

text \<open>
  \<^verbatim>\<open>{ method: 'GET', headers: { ...headers, 'Authorization': `Bearer ${token}` } }\<close>, the
  options of every page request.
\<close>

definition page_requestOptions :: "(string \<times> string) list \<Rightarrow> string \<Rightarrow> RequestInit" where
  "page_requestOptions headers token =
     \<lparr>ri_method = ''GET'',
      ri_headers = with_header headers ''Authorization'' (''Bearer '' @ token),
      ri_body = None\<rparr>"

text \<open>
  One pass of the loop body (lines 236 to 267) at a truthy \<open>currentUrl\<close>, page \<open>n\<close> of the
  call (counted from 0; the call's first token was reply 0, so this page asks for reply
  \<open>Suc n\<close>; a \<^verbatim>\<open>null\<close> reply or an empty token throws). It gives what is thrown, or the new \<open>allValues\<close> with the next \<open>currentUrl\<close>
  (\<^verbatim>\<open>pageData.nextLink || null\<close>), and the requests sent so far.
\<close>

definition fetch_azure_page ::
  "world \<Rightarrow> (string \<times> string) list \<Rightarrow> string \<Rightarrow> nat \<Rightarrow> jsval \<Rightarrow> jsval list \<Rightarrow> azure_request list
   \<Rightarrow> (thrown_value + jsval list \<times> jsval) \<times> azure_request list" where
  "fetch_azure_page w headers url n currentUrl allValues sent =
     (case getToken w (Suc n) of
        Inl e \<Rightarrow> (Inl e, sent)
      | Inr None \<Rightarrow>
          (Inl (Thrown (new_Error ''Failed to acquire Azure access token during pagination'')), sent)
      | Inr (Some token) \<Rightarrow>
          if token = []
          then (Inl (Thrown (new_Error ''Failed to acquire Azure access token during pagination'')), sent)
          else
            (let currentPageRequestOptions = page_requestOptions headers token;
                 sent' = sent @ [(currentUrl, currentPageRequestOptions)]
             in case fetch w n currentUrl currentPageRequestOptions of
                  Inl e \<Rightarrow> (Inl e, sent')
                | Inr pageResponse \<Rightarrow>
                    (let pageData = parse_body w (body_text pageResponse) in
                     if \<not> ok pageResponse
                     then (Inl (Thrown (new_Error
                                  (''API error ('' @ show_nat (status pageResponse)
                                   @ '') during Azure RM pagination on '' @ js_String currentUrl
                                   @ '': '' @ JSON_stringify w pageData))),
                           sent')
                     else
                       (case get_prop pageData ''value'' of
                          Inl e \<Rightarrow> (Inl (Thrown e), sent')
                        | Inr v \<Rightarrow>
                            (case get_prop pageData ''nextLink'' of
                               Inl e \<Rightarrow> (Inl (Thrown e), sent')
                             | Inr nextLink \<Rightarrow>
                                 (Inr (if truthy v \<and> isArray v
                                       then allValues @ array_or_empty v
                                       else if currentUrl = JStr url \<and> \<not> truthy nextLink
                                       then allValues @ [pageData]
                                       else allValues,
                                       if truthy nextLink then nextLink else JNull),
                                  sent'))))))"

text \<open>
  \<^verbatim>\<open>while (currentUrl) { ... }\<close> (lines 235 to 268). Nothing bounds the number of pages, so
  the loop is a partial function: \<open>None\<close> is a loop that never ends.
\<close>

partial_function (option) azure_pages ::
  "world \<Rightarrow> (string \<times> string) list \<Rightarrow> string \<Rightarrow> nat \<Rightarrow> jsval \<Rightarrow> jsval list \<Rightarrow> azure_request list
   \<Rightarrow> ((thrown_value + jsval list) \<times> azure_request list) option" where
  "azure_pages w headers url n currentUrl allValues sent =
     (if truthy currentUrl
      then (case fetch_azure_page w headers url n currentUrl allValues sent of
              (Inl e, sent') \<Rightarrow> Some (Inl e, sent')
            | (Inr (allValues', nextUrl), sent') \<Rightarrow>
                azure_pages w headers url (Suc n) nextUrl allValues' sent')
      else Some (Inr allValues, sent))"

text \<open>The single fetch of the \<^verbatim>\<open>else\<close> branch (lines 272 to 285).\<close>

definition azure_single ::
  "world \<Rightarrow> string \<Rightarrow> RequestInit \<Rightarrow> (thrown_value + jsval) \<times> azure_request list" where
  "azure_single w url requestOptions =
     (case fetch w 0 (JStr url) requestOptions of
        Inl e \<Rightarrow> (Inl e, [(JStr url, requestOptions)])
      | Inr apiResponse \<Rightarrow>
          (let responseData = parse_body w (body_text apiResponse) in
           if \<not> ok apiResponse
           then (Inl (Thrown (new_Error (''API error ('' @ show_nat (status apiResponse)
                                  @ '') for Azure RM: '' @ JSON_stringify w responseData))),
                 [(JStr url, requestOptions)])
           else (Inr responseData, [(JStr url, requestOptions)])))"

text \<open>
  \<^verbatim>\<open>callAzureApi\<close>: how the call ends, with the list of fetches made, or \<open>None\<close> when the
  pagination loop never ends. Everything thrown in the \<^verbatim>\<open>try\<close> block goes through the
  \<^verbatim>\<open>catch\<close> block.
\<close>

definition callAzureApi ::
  "world \<Rightarrow> GraphApiHelper \<Rightarrow> AzureApiCallParams \<Rightarrow> (call_outcome \<times> azure_request list) option" where
  "callAzureApi w h p =
     (case authManager h of
        None \<Rightarrow> Some (azure_catch (Thrown (new_Error ''Auth manager not initialized'')), [])
      | Some am \<Rightarrow>
          (case getAzureCredential w of
             Inl e \<Rightarrow> Some (azure_catch e, [])
           | Inr azureCredential \<Rightarrow>
               (case getToken w 0 of
                  Inl e \<Rightarrow> Some (azure_catch e, [])
                | Inr None \<Rightarrow>
                    Some (azure_catch (Thrown (new_Error ''Failed to acquire Azure access token'')), [])
                | Inr (Some token) \<Rightarrow>
                    if token = []
                    then Some (azure_catch (Thrown (new_Error ''Failed to acquire Azure access token'')), [])
                    else
                      (let url = azure_url w p;
                           headers = azure_headers token;
                           requestOptions = azure_requestOptions w p headers
                       in if flag (az_fetchAll p) \<and> az_method p = GET
                          then (case azure_pages w headers url 0 (JStr url) [] [] of
                                  None \<Rightarrow> None
                                | Some (Inl e, sent) \<Rightarrow> Some (azure_catch e, sent)
                                | Some (Inr allValues, sent) \<Rightarrow>
                                    Some (Returns (api_success (JObj [(''allValues'', JArr allValues)])),
                                          sent))
                          else (case azure_single w url requestOptions of
                                  (Inl e, sent) \<Rightarrow> Some (azure_catch e, sent)
                                | (Inr responseData, sent) \<Rightarrow>
                                    Some (Returns (api_success responseData), sent))))))"

section \<open>The set-access-token tool\<close>

text \<open>
  The slots behind the getters and setters of \<^verbatim>\<open>AuthToolsContext\<close> (the three module
  variables of the entry point), with the two configuration values.
\<close>

record AuthToolsContext =
  ctx_authManager :: "AuthManager option"
  ctx_graphClient :: "Client option"
  ctx_apiHelper :: "GraphApiHelper option"
  ctx_useGraphBeta :: bool
  ctx_defaultGraphApiVersion :: graph_version

text \<open>The tool result \<^verbatim>\<open>{ content: [{ type: "text", text }], isError? }\<close>.\<close>

record tool_result =
  content_text :: string
  isError :: bool

text \<open>
  The handler of \<^verbatim>\<open>set-access-token\<close> (\<^verbatim>\<open>auth-tools.ts\<close>, lines 32 to 81). The manager is one
  object, updated in place, so the slot sees the update as soon as \<^verbatim>\<open>updateAccessToken\<close>
  returns. A throw inside the \<^verbatim>\<open>try\<close> is answered with its message.
\<close>

definition set_access_token ::
  "AuthToolsContext \<Rightarrow> string \<Rightarrow> string option \<Rightarrow> tool_result \<times> AuthToolsContext" where
  "set_access_token context token expiresOnArg =
     (let expirationDate =
            (case expiresOnArg of
               Some isoString \<Rightarrow> if isoString \<noteq> [] then Some (Date isoString) else None
             | None \<Rightarrow> None)
      in case ctx_authManager context of
           None \<Rightarrow>
             (\<lparr>content_text = ''Error: MCP Server is not configured for client-provided token authentication. Set USE_CLIENT_TOKEN=true in environment variables.'',
               isError = True\<rparr>, context)
         | Some am \<Rightarrow>
             if getAuthMode am = ClientProvidedToken
             then (case updateAccessToken am token expirationDate of
                     Inl e \<Rightarrow>
                       (\<lparr>content_text = ''Error setting access token: '' @ message e,
                         isError = True\<rparr>, context)
                   | Inr am' \<Rightarrow>
                       (let authProvider = getGraphAuthProvider am';
                            client = initWithMiddleware authProvider;
                            apiHelper = \<lparr>graphClient = Some client, authManager = Some am',
                                         useGraphBeta = ctx_useGraphBeta context,
                                         defaultGraphApiVersion =
                                           ctx_defaultGraphApiVersion context\<rparr>
                        in (\<lparr>content_text = ''Access token updated successfully. You can now make Microsoft Graph requests on behalf of the authenticated user.'',
                             isError = False\<rparr>,
                            context\<lparr>ctx_authManager := Some am',
                                    ctx_graphClient := Some client,
                                    ctx_apiHelper := Some apiHelper\<rparr>)))
             else
               (\<lparr>content_text = ''Error: MCP Server is not configured for client-provided token authentication. Set USE_CLIENT_TOKEN=true in environment variables.'',
                 isError = True\<rparr>, context))"

section \<open>Describing a sequence of pages\<close>

text \<open>
  The notions below are not code of the helper: they say, in terms of the collaborators'
  replies, which pages a pagination meets, so that statements can speak of
  ``a sequence of pages''.
\<close>

text \<open>The value an object binds to a key, \<^verbatim>\<open>undefined\<close> elsewhere.\<close>

fun field :: "jsval \<Rightarrow> string \<Rightarrow> jsval" where
  "field (JObj kvs) k = (case map_of kvs k of Some v \<Rightarrow> v | None \<Rightarrow> JUndefined)"
| "field v k = JUndefined"

text \<open>The cursor a page hands on: its truthy \<^verbatim>\<open>nextLink\<close>, else \<^verbatim>\<open>null\<close>.\<close>

definition next_cursor :: "jsval \<Rightarrow> jsval" where
  "next_cursor pageData =
     (if truthy (field pageData ''nextLink'') then field pageData ''nextLink'' else JNull)"

text \<open>
  Page \<open>n\<close>, asked at \<open>currentUrl\<close>, is a success page with payload \<open>pageData\<close>: the token
  for it is granted, the fetch returns a 2xx response, and its body parses (or degrades) to
  \<open>pageData\<close>, which is not \<^verbatim>\<open>null\<close>.
\<close>

definition serves_page ::
  "world \<Rightarrow> (string \<times> string) list \<Rightarrow> nat \<Rightarrow> jsval \<Rightarrow> jsval \<Rightarrow> bool" where
  "serves_page w headers n currentUrl pageData =
     (case getToken w (Suc n) of
        Inr (Some token) \<Rightarrow>
          token \<noteq> [] \<and>
          (case fetch w n currentUrl (page_requestOptions headers token) of
             Inr pageResponse \<Rightarrow>
               ok pageResponse \<and> parse_body w (body_text pageResponse) = pageData
               \<and> pageData \<noteq> JNull \<and> pageData \<noteq> JUndefined
           | Inl e \<Rightarrow> False)
      | _ \<Rightarrow> False)"

text \<open>
  From page \<open>n\<close> at \<open>currentUrl\<close> on, the backend serves the success pages \<open>pages\<close> in this
  order, each reached through the cursor of the one before.
\<close>

fun serves :: "world \<Rightarrow> (string \<times> string) list \<Rightarrow> nat \<Rightarrow> jsval \<Rightarrow> jsval list \<Rightarrow> bool" where
  "serves w headers n currentUrl [] = True"
| "serves w headers n currentUrl (pageData # pages) =
     (truthy currentUrl \<and> serves_page w headers n currentUrl pageData
      \<and> serves w headers (Suc n) (next_cursor pageData) pages)"

text \<open>The cursor after a sequence of pages.\<close>

fun cursor_after :: "jsval \<Rightarrow> jsval list \<Rightarrow> jsval" where
  "cursor_after currentUrl [] = currentUrl"
| "cursor_after currentUrl (pageData # pages) = cursor_after (next_cursor pageData) pages"

text \<open>
  What a success page adds to the aggregate, in the specification's words: the elements of
  its \<^verbatim>\<open>value\<close> array; otherwise, on the very first page with no cursor, the whole payload;
  otherwise nothing.
\<close>

definition page_items :: "string \<Rightarrow> jsval \<Rightarrow> jsval \<Rightarrow> jsval list" where
  "page_items url currentUrl pageData =
     (if isArray (field pageData ''value'') then array_or_empty (field pageData ''value'')
      else if currentUrl = JStr url \<and> \<not> truthy (field pageData ''nextLink'') then [pageData]
      else [])"

fun collected :: "string \<Rightarrow> jsval \<Rightarrow> jsval list \<Rightarrow> jsval list" where
  "collected url currentUrl [] = []"
| "collected url currentUrl (pageData # pages) =
     page_items url currentUrl pageData @ collected url (next_cursor pageData) pages"

text \<open>
  The pagination started at page \<open>n\<close> ends within \<open>k\<close> more pages: the cursor is falsy, or
  the page throws, or the rest ends within \<open>k - 1\<close> pages.
\<close>

fun ends_within ::
  "world \<Rightarrow> (string \<times> string) list \<Rightarrow> string \<Rightarrow> nat \<Rightarrow> nat \<Rightarrow> jsval \<Rightarrow> jsval list
   \<Rightarrow> azure_request list \<Rightarrow> bool" where
  "ends_within w headers url 0 n currentUrl allValues sent = (\<not> truthy currentUrl)"
| "ends_within w headers url (Suc k) n currentUrl allValues sent =
     (if truthy currentUrl
      then (case fetch_azure_page w headers url n currentUrl allValues sent of
              (Inl e, sent') \<Rightarrow> True
            | (Inr (allValues', nextUrl), sent') \<Rightarrow>
                ends_within w headers url k (Suc n) nextUrl allValues' sent')
      else True)"

text \<open>
  The helper is ready for a resource-management call: it has an authentication manager,
  the credential accessor returns, and the first token request is granted \<open>token\<close>.
\<close>

definition azure_ready :: "world \<Rightarrow> GraphApiHelper \<Rightarrow> string \<Rightarrow> bool" where
  "azure_ready w h token =
     (authManager h \<noteq> None \<and> getAzureCredential w = Inr () \<and> getToken w 0 = Inr (Some token)
      \<and> token \<noteq> [])"

text \<open>
  A tagged result: a payload without error, or an error message with \<^verbatim>\<open>null\<close> data.
\<close>

definition tagged :: "ApiResponse \<Rightarrow> bool" where
  "tagged r = (case error r of None \<Rightarrow> True | Some msg \<Rightarrow> data r = JNull)"

text \<open>
  What the \<^verbatim>\<open>catch\<close> blocks can read: a thrown value that is not \<^verbatim>\<open>null\<close> or \<^verbatim>\<open>undefined\<close>,
  and one whose \<^verbatim>\<open>body\<close>, if any, \<^verbatim>\<open>JSON.stringify\<close> serializes.
\<close>

fun not_nullish :: "thrown_value \<Rightarrow> bool" where
  "not_nullish ThrownNull = False"
| "not_nullish ThrownUndefined = False"
| "not_nullish (Thrown e) = True"

fun serializable_body :: "thrown_value \<Rightarrow> bool" where
  "serializable_body (Thrown e) =
     (case thrown_body e of UnserializableBody msg \<Rightarrow> False | _ \<Rightarrow> True)"
| "serializable_body e = True"

section \<open>Example backends\<close>

text \<open>
  A small backend for the examples: \<open>route\<close> answers a fetch by its URL, every token
  request is granted, and the bodies are parsed by a table.
\<close>

definition example_parse :: "string \<Rightarrow> jsval option" where
  "example_parse t =
     (if t = ''P1'' then Some (JObj [(''value'', JArr [JStr ''a'', JStr ''b'']),
                                     (''nextLink'', JStr ''https://next/2'')])
      else if t = ''P2'' then Some (JObj [(''value'', JArr [JStr ''c''])])
      else if t = ''single'' then Some (JObj [(''id'', JStr ''vm1'')])
      else if t = ''loop'' then Some (JObj [(''value'', JArr []),
                                            (''nextLink'', JStr ''https://next/2'')])
      else if t = ''null'' then Some JNull
      else None)"

definition example_stringify :: "jsval \<Rightarrow> string" where
  "example_stringify v = (if v = JObj [] then ''{}'' else ''[json]'')"

fun example_query :: "(string \<times> string) list \<Rightarrow> string" where
  "example_query [] = []"
| "example_query [(k, v)] = k @ ''='' @ v"
| "example_query ((k, v) # kv # kvs) = k @ ''='' @ v @ ''&'' @ example_query (kv # kvs)"

definition example_users :: jsval where
  "example_users =
     JObj [(''@odata.context'', JStr ''https://graph.microsoft.com/beta/$metadata#users''),
           (''value'', JArr [JStr ''u1'', JStr ''u2'', JStr ''u3'']),
           (''@odata.nextLink'', JStr ''https://graph.microsoft.com/beta/users?$skiptoken=x'')]"

definition backend :: "(jsval \<Rightarrow> http_response) \<Rightarrow> world" where
  "backend route =
     \<lparr>graph_send = (\<lambda>request. if gr_verb request = GET then Inr example_users
                                else Inr JUndefined),
      getAzureCredential = Inr (),
      getToken = (\<lambda>k. Inr (Some ''tok'')),
      fetch = (\<lambda>k url init. Inr (route url)),
      JSON_parse = example_parse,
      JSON_stringify = example_stringify,
      URLSearchParams_toString = example_query\<rparr>"

definition respond :: "nat \<Rightarrow> string \<Rightarrow> http_response" where
  "respond code t = \<lparr>ok = (200 \<le> code \<and> code < 300), status = code, body_text = t\<rparr>"

text \<open>Two pages: \<^verbatim>\<open>P1\<close> at the first URL, \<^verbatim>\<open>P2\<close> at the cursor of \<^verbatim>\<open>P1\<close>.\<close>

definition two_pages :: world where
  "two_pages = backend (\<lambda>url. if url = JStr ''https://next/2'' then respond 200 ''P2''
                               else respond 200 ''P1'')"

text \<open>The second page answers 500.\<close>

definition second_page_fails :: world where
  "second_page_fails = backend (\<lambda>url. if url = JStr ''https://next/2'' then respond 500 ''busy''
                                       else respond 200 ''P1'')"

text \<open>The second page answers 200 with a body that is not JSON.\<close>

definition second_page_malformed :: world where
  "second_page_malformed =
     backend (\<lambda>url. if url = JStr ''https://next/2'' then respond 200 ''<html>''
                     else respond 200 ''P1'')"

text \<open>Every page carries a cursor.\<close>

definition endless :: world where
  "endless = backend (\<lambda>url. respond 200 ''loop'')"

text \<open>One page without \<^verbatim>\<open>value\<close> and without cursor; one page whose body is \<^verbatim>\<open>null\<close>.\<close>

definition single_resource :: world where
  "single_resource = backend (\<lambda>url. respond 200 ''single'')"

definition null_body :: world where
  "null_body = backend (\<lambda>url. respond 200 ''null'')"

text \<open>A body that is not JSON, and an empty body with status 204.\<close>

definition malformed_body :: world where
  "malformed_body = backend (\<lambda>url. respond 200 ''<html>'')"


text \<open>Every SDK request and every fetch is rejected with the given value.\<close>

definition rejecting :: "thrown_value \<Rightarrow> world" where
  "rejecting e =
     \<lparr>graph_send = (\<lambda>request. Inl e),
      getAzureCredential = Inr (),
      getToken = (\<lambda>k. Inr (Some ''tok'')),
      fetch = (\<lambda>k url init. Inl e),
      JSON_parse = example_parse,
      JSON_stringify = example_stringify,
      URLSearchParams_toString = example_query\<rparr>"

text \<open>An SDK error whose body holds a reference to itself.\<close>

definition circular_error :: js_thrown where
  "circular_error =
     \<lparr>instanceof_Error = True, message = ''Not Found'', as_String = ''Error: Not Found'',
      thrown_statusCode = JNum 404,
      thrown_body = UnserializableBody ''Converting circular structure to JSON''\<rparr>"

definition example_manager :: AuthManager where
  "example_manager = \<lparr>mode = ClientCredentials, accessToken = Some ''tok'', expiresOn = None\<rparr>"

definition example_helper :: GraphApiHelper where
  "example_helper =
     \<lparr>graphClient = Some (initWithMiddleware (GraphAuthProvider example_manager)),
      authManager = Some example_manager,
      useGraphBeta = True,
      defaultGraphApiVersion = Beta\<rparr>"

definition uninitialized_helper :: GraphApiHelper where
  "uninitialized_helper =
     \<lparr>graphClient = None, authManager = None, useGraphBeta = True,
      defaultGraphApiVersion = Beta\<rparr>"

definition list_users :: GraphApiCallParams where
  "list_users =
     \<lparr>g_path = ''/users'', g_method = GET, g_queryParams = None, g_body = JUndefined,
      graphApiVersion = Some Beta, g_fetchAll = Some True, consistencyLevel = None\<rparr>"

definition list_machines :: AzureApiCallParams where
  "list_machines =
     \<lparr>az_path = ''/providers/Microsoft.Compute/virtualMachines'', az_method = GET,
      apiVersion = ''2023-03-01'', subscriptionId = Some ''sub1'', az_queryParams = None,
      az_body = JUndefined, az_fetchAll = Some True\<rparr>"

text \<open>A context whose manager runs in the given mode and holds a token.\<close>

definition example_context :: "AuthMode \<Rightarrow> AuthToolsContext" where
  "example_context m =
     \<lparr>ctx_authManager = Some \<lparr>mode = m, accessToken = Some ''old'', expiresOn = None\<rparr>,
      ctx_graphClient = None, ctx_apiHelper = None, ctx_useGraphBeta = True,
      ctx_defaultGraphApiVersion = Beta\<rparr>"

section \<open>Theorems\<close>

text \<open>
  C5. For every payload and both backend kinds, \<open>hasMorePages\<close> does not throw and is true
  exactly when the payload is truthy and carries the cursor key of that backend
  (\<^verbatim>\<open>@odata.nextLink\<close> for graph, \<^verbatim>\<open>nextLink\<close> for azure) with a truthy value; a payload with
  only \<^verbatim>\<open>nextLink\<close> gives false for graph. The predicate is a function of its two arguments
  alone: it reads no helper state and returns nothing but the boolean.
\<close>

theorem hasMorePages_iff_cursor:
  "hasMorePages d Graph = Inr (truthy d \<and> cursor_present_truthy d ''@odata.nextLink'')
   \<and> hasMorePages d Azure = Inr (truthy d \<and> cursor_present_truthy d ''nextLink'')
   \<and> (map_of kvs ''@odata.nextLink'' = None \<longrightarrow> hasMorePages (JObj kvs) Graph = Inr False)"
  by (cases d) (auto simp: hasMorePages_def nextLinkKey_def split: option.splits)

theorem hasMorePages_iff_cursor_witness:
  "hasMorePages (JObj [(''nextLink'', JStr ''https://next'')]) Graph = Inr False
   \<and> hasMorePages (JObj [(''nextLink'', JStr ''https://next'')]) Azure = Inr True
   \<and> hasMorePages (JObj [(''@odata.nextLink'', JStr ''https://next'')]) Graph = Inr True
   \<and> hasMorePages JNull Azure = Inr False"
  using hasMorePages_iff_cursor [of "JObj [(''nextLink'', JStr ''https://next'')]"
          "[(''nextLink'', JStr ''https://next'')]"]
        hasMorePages_iff_cursor [of "JObj [(''@odata.nextLink'', JStr ''https://next'')]" "[]"]
        hasMorePages_iff_cursor [of JNull "[]"]
  by simp

subsection \<open>Graph requests\<close>

lemma get_prop_field:
  "v \<noteq> JNull \<Longrightarrow> v \<noteq> JUndefined \<Longrightarrow> get_prop v k = Inr (field v k)"
  by (cases v) simp_all








subsection \<open>The pagination loop\<close>

lemma serves_pageD:
  assumes "serves_page w headers n currentUrl pageData"
  obtains token pageResponse where "getToken w (Suc n) = Inr (Some token)" "token \<noteq> []"
    "fetch w n currentUrl (page_requestOptions headers token) = Inr pageResponse"
    "ok pageResponse" "parse_body w (body_text pageResponse) = pageData"
    "pageData \<noteq> JNull" "pageData \<noteq> JUndefined"
proof (cases "getToken w (Suc n)")
  case (Inl e)
  with assms show ?thesis by (simp add: serves_page_def)
next
  case (Inr tokenResponse)
  show ?thesis
  proof (cases tokenResponse)
    case None
    with Inr assms show ?thesis by (simp add: serves_page_def)
  next
    case (Some token)
    show ?thesis
    proof (cases "fetch w n currentUrl (page_requestOptions headers token)")
      case (Inl e)
      with Inr Some assms show ?thesis by (simp add: serves_page_def)
    next
      case page: (Inr pageResponse)
      with Inr Some assms that [of token pageResponse] show ?thesis
        by (simp add: serves_page_def)
    qed
  qed
qed

lemma fetch_azure_page_success:
  assumes "serves_page w headers n currentUrl pageData"
  shows "\<exists>request. fetch_azure_page w headers url n currentUrl allValues sent =
           (Inr (allValues @ page_items url currentUrl pageData, next_cursor pageData),
            sent @ [request])"
proof -
  from assms obtain token pageResponse where
    t: "getToken w (Suc n) = Inr (Some token)" "token \<noteq> []"
    and f: "fetch w n currentUrl (page_requestOptions headers token) = Inr pageResponse"
    and r: "ok pageResponse" "parse_body w (body_text pageResponse) = pageData"
    and d: "pageData \<noteq> JNull" "pageData \<noteq> JUndefined"
    by (rule serves_pageD)
  have v: "isArray x \<Longrightarrow> truthy x" for x by (cases x) simp_all
  have "fetch_azure_page w headers url n currentUrl allValues sent =
           (Inr (allValues @ page_items url currentUrl pageData, next_cursor pageData),
            sent @ [(currentUrl, page_requestOptions headers token)])"
    using t f r v [of "field pageData ''value''"]
    by (simp add: fetch_azure_page_def Let_def get_prop_field [OF d] page_items_def
        next_cursor_def)
  then show ?thesis by blast
qed

lemma fetch_azure_page_not_ok:
  assumes "getToken w (Suc n) = Inr (Some token)" and "token \<noteq> []"
    and "fetch w n currentUrl (page_requestOptions headers token) = Inr pageResponse"
    and "\<not> ok pageResponse"
  shows "fetch_azure_page w headers url n currentUrl allValues sent =
           (Inl (Thrown (new_Error (''API error ('' @ show_nat (status pageResponse)
                            @ '') during Azure RM pagination on '' @ js_String currentUrl
                            @ '': '' @ JSON_stringify w (parse_body w (body_text pageResponse))))),
            sent @ [(currentUrl, page_requestOptions headers token)])"
  using assms by (simp add: fetch_azure_page_def Let_def)

lemma azure_pages_stop:
  "\<not> truthy currentUrl \<Longrightarrow>
   azure_pages w headers url n currentUrl allValues sent = Some (Inr allValues, sent)"
  by (subst azure_pages.simps) simp

lemma azure_pages_throw:
  "truthy currentUrl \<Longrightarrow>
   fetch_azure_page w headers url n currentUrl allValues sent = (Inl e, sent') \<Longrightarrow>
   azure_pages w headers url n currentUrl allValues sent = Some (Inl e, sent')"
  by (subst azure_pages.simps) simp

lemma azure_pages_next:
  "truthy currentUrl \<Longrightarrow>
   fetch_azure_page w headers url n currentUrl allValues sent
     = (Inr (allValues', nextUrl), sent') \<Longrightarrow>
   azure_pages w headers url n currentUrl allValues sent
     = azure_pages w headers url (Suc n) nextUrl allValues' sent'"
  by (rule trans [OF azure_pages.simps]) simp

lemma azure_pages_serves:
  "serves w headers n currentUrl pages \<Longrightarrow>
   \<exists>requests. length requests = length pages \<and>
     azure_pages w headers url n currentUrl allValues sent =
       azure_pages w headers url (n + length pages) (cursor_after currentUrl pages)
         (allValues @ collected url currentUrl pages) (sent @ requests)"
proof (induction pages arbitrary: n currentUrl allValues sent)
  case Nil
  then show ?case by simp
next
  case (Cons pageData pages)
  from Cons.prems have cur: "truthy currentUrl"
    and page: "serves_page w headers n currentUrl pageData"
    and rest: "serves w headers (Suc n) (next_cursor pageData) pages"
    by simp_all
  from fetch_azure_page_success [OF page, of url allValues sent]
  obtain request where step:
    "fetch_azure_page w headers url n currentUrl allValues sent =
       (Inr (allValues @ page_items url currentUrl pageData, next_cursor pageData),
        sent @ [request])"
    by blast
  from Cons.IH [OF rest, of "allValues @ page_items url currentUrl pageData" "sent @ [request]"]
  obtain requests where len: "length requests = length pages"
    and run: "azure_pages w headers url (Suc n) (next_cursor pageData)
                (allValues @ page_items url currentUrl pageData) (sent @ [request]) =
              azure_pages w headers url (Suc n + length pages)
                (cursor_after (next_cursor pageData) pages)
                ((allValues @ page_items url currentUrl pageData)
                 @ collected url (next_cursor pageData) pages)
                ((sent @ [request]) @ requests)"
    by blast
  have "azure_pages w headers url n currentUrl allValues sent =
          azure_pages w headers url (n + length (pageData # pages))
            (cursor_after currentUrl (pageData # pages))
            (allValues @ collected url currentUrl (pageData # pages))
            (sent @ (request # requests))"
    using azure_pages_next [OF cur step] run by simp
  with len show ?case
    by (intro exI [of _ "request # requests"]) simp
qed

lemma callAzureApi_fetchAll:
  assumes "azure_ready w h token" and "az_fetchAll p = Some True" and "az_method p = GET"
  shows "callAzureApi w h p =
           (case azure_pages w (azure_headers token) (azure_url w p) 0 (JStr (azure_url w p)) [] []
            of None \<Rightarrow> None
             | Some (Inl e, sent) \<Rightarrow> Some (azure_catch e, sent)
             | Some (Inr allValues, sent) \<Rightarrow>
                 Some (Returns (api_success (JObj [(''allValues'', JArr allValues)])), sent))"
  using assms by (auto simp: callAzureApi_def azure_ready_def flag_def Let_def)

lemma callAzureApi_single:
  assumes "azure_ready w h token" and "\<not> (flag (az_fetchAll p) \<and> az_method p = GET)"
  shows "callAzureApi w h p =
           (case azure_single w (azure_url w p)
                   (azure_requestOptions w p (azure_headers token))
            of (Inl e, sent) \<Rightarrow> Some (azure_catch e, sent)
             | (Inr responseData, sent) \<Rightarrow> Some (Returns (api_success responseData), sent))"
  using assms by (auto simp: callAzureApi_def azure_ready_def Let_def)

lemma truthy_azure_url: "truthy (JStr (azure_url w p))"
  by (simp add: azure_url_def)

lemma serves_append:
  "serves w headers n currentUrl (pages @ pages') =
     (serves w headers n currentUrl pages
      \<and> serves w headers (n + length pages) (cursor_after currentUrl pages) pages')"
  by (induction pages arbitrary: n currentUrl) auto

lemma cursor_after_append:
  "cursor_after currentUrl (pages @ pages') = cursor_after (cursor_after currentUrl pages) pages'"
  by (induction pages arbitrary: currentUrl) auto

lemma collected_append:
  "collected url currentUrl (pages @ pages') =
     collected url currentUrl pages @ collected url (cursor_after currentUrl pages) pages'"
  by (induction pages arbitrary: currentUrl) auto


lemma azure_fetchAll_collects:
  assumes "azure_ready w h token" and "az_fetchAll p = Some True" and "az_method p = GET"
    and "serves w (azure_headers token) 0 (JStr (azure_url w p)) pages"
    and "\<not> truthy (cursor_after (JStr (azure_url w p)) pages)"
  shows "\<exists>sent. callAzureApi w h p =
           Some (Returns (api_success
                   (JObj [(''allValues'', JArr (collected (azure_url w p)
                                                  (JStr (azure_url w p)) pages))])), sent)
         \<and> length sent = length pages"
proof -
  from azure_pages_serves [OF assms(4), of "azure_url w p" "[]" "[]"]
  obtain requests where len: "length requests = length pages"
    and run: "azure_pages w (azure_headers token) (azure_url w p) 0 (JStr (azure_url w p)) [] [] =
              azure_pages w (azure_headers token) (azure_url w p) (length pages)
                (cursor_after (JStr (azure_url w p)) pages)
                (collected (azure_url w p) (JStr (azure_url w p)) pages) requests"
    by auto
  have "azure_pages w (azure_headers token) (azure_url w p) 0 (JStr (azure_url w p)) [] [] =
          Some (Inr (collected (azure_url w p) (JStr (azure_url w p)) pages), requests)"
    unfolding run using assms(5) by (rule azure_pages_stop)
  with len show ?thesis
    by (simp add: callAzureApi_fetchAll [OF assms(1-3)])
qed



lemma example_ready: "azure_ready (backend route) example_helper ''tok''"
  by (simp add: azure_ready_def backend_def example_helper_def)

lemma list_machines_fetchAll:
  "az_fetchAll list_machines = Some True" "az_method list_machines = GET"
  by (simp_all add: list_machines_def)

lemma example_first_url:
  "JStr (azure_url (backend route) list_machines) \<noteq> JStr ''https://next/2''"
  by (simp add: azure_url_def backend_def list_machines_def)


lemma azure_fetchAll_page_not_ok:
  assumes "azure_ready w h token" and "az_fetchAll p = Some True" and "az_method p = GET"
    and "serves w (azure_headers token) 0 (JStr (azure_url w p)) pages"
    and "truthy (cursor_after (JStr (azure_url w p)) pages)"
    and "getToken w (Suc (length pages)) = Inr (Some pageToken)" and "pageToken \<noteq> []"
    and "fetch w (length pages) (cursor_after (JStr (azure_url w p)) pages)
           (page_requestOptions (azure_headers token) pageToken) = Inr pageResponse"
    and "\<not> ok pageResponse"
  shows "\<exists>sent. callAzureApi w h p =
           Some (Returns (api_failure
                   (new_Error
                      (''API error ('' @ show_nat (status pageResponse)
                       @ '') during Azure RM pagination on ''
                       @ js_String (cursor_after (JStr (azure_url w p)) pages)
                       @ '': '' @ JSON_stringify w (parse_body w (body_text pageResponse))))),
                 sent)
         \<and> length sent = Suc (length pages)"
proof -
  let ?url = "azure_url w p"
  let ?cur = "cursor_after (JStr ?url) pages"
  let ?e = "new_Error (''API error ('' @ show_nat (status pageResponse)
                       @ '') during Azure RM pagination on '' @ js_String ?cur
                       @ '': '' @ JSON_stringify w (parse_body w (body_text pageResponse)))"
  from azure_pages_serves [OF assms(4), of ?url "[]" "[]"]
  obtain requests where len: "length requests = length pages"
    and run: "azure_pages w (azure_headers token) ?url 0 (JStr ?url) [] [] =
              azure_pages w (azure_headers token) ?url (length pages) ?cur
                (collected ?url (JStr ?url) pages) requests"
    by auto
  have "azure_pages w (azure_headers token) ?url (length pages) ?cur
          (collected ?url (JStr ?url) pages) requests =
        Some (Inl (Thrown ?e),
              requests @ [(?cur, page_requestOptions (azure_headers token) pageToken)])"
    by (rule azure_pages_throw [OF assms(5)])
       (rule fetch_azure_page_not_ok [OF assms(6-9)])
  with run len show ?thesis
    by (simp add: callAzureApi_fetchAll [OF assms(1-3)])
qed

text \<open>
  C3. In a resource-management \<^verbatim>\<open>fetchAll\<close>, when the pages before are success pages and the
  next page answers with a status that is not 2xx, the call returns an error result: the data
  is \<^verbatim>\<open>null\<close> (so it holds no item of any page), the message is not empty and names the
  status and the URL of the failing page, and that page is the last one fetched.
\<close>

theorem azure_fetchAll_aborts_on_failed_page:
  assumes "azure_ready w h token" and "az_fetchAll p = Some True" and "az_method p = GET"
    and "serves w (azure_headers token) 0 (JStr (azure_url w p)) pages"
    and "truthy (cursor_after (JStr (azure_url w p)) pages)"
    and "getToken w (Suc (length pages)) = Inr (Some pageToken)" and "pageToken \<noteq> []"
    and "fetch w (length pages) (cursor_after (JStr (azure_url w p)) pages)
           (page_requestOptions (azure_headers token) pageToken) = Inr pageResponse"
    and "\<not> ok pageResponse"
  shows "\<exists>sent. callAzureApi w h p =
           Some (Returns \<lparr>data = JNull,
                  error = Some (''API error ('' @ show_nat (status pageResponse)
                                @ '') during Azure RM pagination on ''
                                @ js_String (cursor_after (JStr (azure_url w p)) pages)
                                @ '': ''
                                @ JSON_stringify w (parse_body w (body_text pageResponse))),
                  statusCode = None\<rparr>, sent)
         \<and> length sent = Suc (length pages)"
  using azure_fetchAll_page_not_ok [OF assms]
  by (simp add: api_failure_def new_Error_def)

lemma show_nat_500: "show_nat 500 = ''500''"
  by (simp add: show_nat.simps)

theorem azure_fetchAll_aborts_on_failed_page_witness:
  "\<exists>sent. callAzureApi second_page_fails example_helper list_machines =
      Some (Returns \<lparr>data = JNull,
             error = Some ''API error (500) during Azure RM pagination on https://next/2: [json]'',
             statusCode = None\<rparr>, sent)
    \<and> length sent = Suc (Suc 0)"
proof -
  let ?P1 = "JObj [(''value'', JArr [JStr ''a'', JStr ''b'']),
                   (''nextLink'', JStr ''https://next/2'')]"
  have r: "azure_ready second_page_fails example_helper ''tok''"
    by (simp add: second_page_fails_def example_ready)
  have s: "serves second_page_fails (azure_headers ''tok'') 0
             (JStr (azure_url second_page_fails list_machines)) [?P1]"
    using example_first_url [of "\<lambda>url. if url = JStr ''https://next/2''
                                        then respond 500 ''busy'' else respond 200 ''P1''"]
    by (simp add: second_page_fails_def serves_page_def backend_def respond_def parse_body_def
        example_parse_def next_cursor_def azure_url_def)
  have c: "cursor_after (JStr (azure_url second_page_fails list_machines)) [?P1]
             = JStr ''https://next/2''"
    by (simp add: next_cursor_def)
  have t: "getToken second_page_fails (Suc (length [?P1])) = Inr (Some ''tok'')" "''tok'' \<noteq> []"
    by (simp_all add: second_page_fails_def backend_def)
  have f: "fetch second_page_fails (length [?P1])
             (cursor_after (JStr (azure_url second_page_fails list_machines)) [?P1])
             (page_requestOptions (azure_headers ''tok'') ''tok'') = Inr (respond 500 ''busy'')"
    unfolding c by (simp add: second_page_fails_def backend_def)
  have n: "\<not> ok (respond 500 ''busy'')"
    by (simp add: respond_def)
  have tr: "truthy (cursor_after (JStr (azure_url second_page_fails list_machines)) [?P1])"
    unfolding c by simp
  have m: "JSON_stringify second_page_fails
             (parse_body second_page_fails (body_text (respond 500 ''busy''))) = ''[json]''"
    by (simp add: second_page_fails_def backend_def respond_def parse_body_def
        example_parse_def example_stringify_def)
  from azure_fetchAll_aborts_on_failed_page [OF r list_machines_fetchAll s tr t f n]
  show ?thesis
    unfolding c m by (simp add: respond_def show_nat_500)
qed

lemma azure_fetchAll_wraps_single_payload:
  assumes "azure_ready w h token" and "az_fetchAll p = Some True" and "az_method p = GET"
    and "serves_page w (azure_headers token) 0 (JStr (azure_url w p)) pageData"
    and "\<not> isArray (field pageData ''value'')"
    and "\<not> truthy (field pageData ''nextLink'')"
  shows "\<exists>sent. callAzureApi w h p =
           Some (Returns (api_success (JObj [(''allValues'', JArr [pageData])])), sent)
         \<and> length sent = Suc 0"
proof -
  have s: "serves w (azure_headers token) 0 (JStr (azure_url w p)) [pageData]"
    using assms(4) truthy_azure_url [of w p] by simp
  have c: "\<not> truthy (cursor_after (JStr (azure_url w p)) [pageData])"
    using assms(6) by (simp add: next_cursor_def)
  from azure_fetchAll_collects [OF assms(1-3) s c] assms(5,6)
  show ?thesis by (simp add: page_items_def)
qed

lemma azure_fetchAll_wraps_single_payload_example:
  "\<exists>sent. callAzureApi single_resource example_helper list_machines =
      Some (Returns (api_success (JObj [(''allValues'', JArr [JObj [(''id'', JStr ''vm1'')]])])), sent)
    \<and> length sent = Suc 0"
proof -
  have r: "azure_ready single_resource example_helper ''tok''"
    by (simp add: single_resource_def example_ready)
  have s: "serves_page single_resource (azure_headers ''tok'') 0
             (JStr (azure_url single_resource list_machines)) (JObj [(''id'', JStr ''vm1'')])"
    by (simp add: single_resource_def serves_page_def backend_def respond_def parse_body_def
        example_parse_def)
  from azure_fetchAll_wraps_single_payload [OF r list_machines_fetchAll s]
  show ?thesis by simp
qed

text \<open>
  C7, at the body \<^verbatim>\<open>null\<close>. The only page answers 200 with the JSON text \<^verbatim>\<open>null\<close>: its payload
  has no \<^verbatim>\<open>value\<close> array and no cursor, but reading \<^verbatim>\<open>pageData.value\<close> throws, and the call
  returns the error result of the \<^verbatim>\<open>catch\<close> block instead of \<^verbatim>\<open>{ allValues: [null] }\<close>.
\<close>

theorem azure_fetchAll_null_payload:
  "parse_body null_body (body_text (respond 200 ''null'')) = JNull
   \<and> ok (respond 200 ''null'')
   \<and> \<not> isArray (field JNull ''value'') \<and> \<not> truthy (field JNull ''nextLink'')
   \<and> callAzureApi null_body example_helper list_machines =
       Some (Returns \<lparr>data = JNull,
              error = Some (''Cannot read properties of null (reading '' @ [CHR 0x27] @ ''value''
                            @ [CHR 0x27] @ '')''),
              statusCode = None\<rparr>,
             [(JStr (azure_url null_body list_machines),
               page_requestOptions (azure_headers ''tok'') ''tok'')])"
proof -
  have r: "azure_ready null_body example_helper ''tok''"
    by (simp add: null_body_def example_ready)
  have b: "parse_body null_body (body_text (respond 200 ''null'')) = JNull"
    by (simp add: null_body_def backend_def respond_def parse_body_def example_parse_def)
  have p: "fetch_azure_page null_body (azure_headers ''tok'') (azure_url null_body list_machines)
             0 (JStr (azure_url null_body list_machines)) [] [] =
           (Inl (Thrown (nullish_TypeError ''null'' ''value'')),
            [(JStr (azure_url null_body list_machines),
              page_requestOptions (azure_headers ''tok'') ''tok'')])"
    by (simp add: fetch_azure_page_def null_body_def backend_def respond_def parse_body_def
        example_parse_def Let_def)
  have "azure_pages null_body (azure_headers ''tok'') (azure_url null_body list_machines)
             0 (JStr (azure_url null_body list_machines)) [] [] =
        Some (Inl (Thrown (nullish_TypeError ''null'' ''value'')),
              [(JStr (azure_url null_body list_machines),
                page_requestOptions (azure_headers ''tok'') ''tok'')])"
    by (rule azure_pages_throw [OF truthy_azure_url p])
  then have "callAzureApi null_body example_helper list_machines =
       Some (Returns (api_failure (nullish_TypeError ''null'' ''value'')),
             [(JStr (azure_url null_body list_machines),
               page_requestOptions (azure_headers ''tok'') ''tok'')])"
    by (simp add: callAzureApi_fetchAll [OF r list_machines_fetchAll])
  with b show ?thesis
    by (simp add: api_failure_def nullish_TypeError_def respond_def Let_def)
qed

subsection \<open>Bodies that are not JSON\<close>

lemma parse_body_malformed:
  "t \<noteq> [] \<Longrightarrow> JSON_parse w t = None \<Longrightarrow> parse_body w t = JObj [(''rawResponse'', JStr t)]"
  by (simp add: parse_body_def)

lemma azure_single_malformed:
  assumes "azure_ready w h token" and "\<not> (flag (az_fetchAll p) \<and> az_method p = GET)"
    and "fetch w 0 (JStr (azure_url w p)) (azure_requestOptions w p (azure_headers token))
           = Inr response"
    and "body_text response \<noteq> []" and "JSON_parse w (body_text response) = None"
  shows "map_option fst (callAzureApi w h p) =
           Some (if ok response
                 then Returns (api_success (JObj [(''rawResponse'', JStr (body_text response))]))
                 else Returns (api_failure
                        (new_Error
                           (''API error ('' @ show_nat (status response) @ '') for Azure RM: ''
                            @ JSON_stringify w
                                (JObj [(''rawResponse'', JStr (body_text response))])))))"
  using assms(3)
  by (simp add: callAzureApi_single [OF assms(1,2)] azure_single_def Let_def
      parse_body_malformed [OF assms(4,5)])

lemma azure_fetchAll_malformed:
  assumes "azure_ready w h token" and "az_fetchAll p = Some True" and "az_method p = GET"
    and "serves w (azure_headers token) 0 (JStr (azure_url w p)) pages"
    and "truthy (cursor_after (JStr (azure_url w p)) pages)"
    and "getToken w (Suc (length pages)) = Inr (Some pageToken)" and "pageToken \<noteq> []"
    and "fetch w (length pages) (cursor_after (JStr (azure_url w p)) pages)
           (page_requestOptions (azure_headers token) pageToken) = Inr response"
    and "ok response"
    and "body_text response \<noteq> []" and "JSON_parse w (body_text response) = None"
  shows "map_option fst (callAzureApi w h p) =
           Some (Returns (api_success
                   (JObj [(''allValues'',
                           JArr (collected (azure_url w p) (JStr (azure_url w p)) pages
                                 @ (if cursor_after (JStr (azure_url w p)) pages
                                       = JStr (azure_url w p)
                                    then [JObj [(''rawResponse'', JStr (body_text response))]]
                                    else [])))])))"
proof -
  let ?url = "azure_url w p"
  let ?wrapper = "JObj [(''rawResponse'', JStr (body_text response))]"
  have page: "serves_page w (azure_headers token) (length pages)
                (cursor_after (JStr ?url) pages) ?wrapper"
    using assms(6-9) by (simp add: serves_page_def parse_body_malformed [OF assms(10,11)])
  have s: "serves w (azure_headers token) 0 (JStr ?url) (pages @ [?wrapper])"
    using assms(4,5) page by (simp add: serves_append)
  have c: "\<not> truthy (cursor_after (JStr ?url) (pages @ [?wrapper]))"
    by (simp add: cursor_after_append next_cursor_def)
  from azure_fetchAll_collects [OF assms(1-3) s c]
  show ?thesis
    by (auto simp: collected_append page_items_def)
qed

lemma second_page_malformed_facts:
  fixes P1 defines "P1 \<equiv> JObj [(''value'', JArr [JStr ''a'', JStr ''b'']),
                                 (''nextLink'', JStr ''https://next/2'')]"
  shows "azure_ready second_page_malformed example_helper ''tok''"
    and "serves second_page_malformed (azure_headers ''tok'') 0
           (JStr (azure_url second_page_malformed list_machines)) [P1]"
    and "cursor_after (JStr (azure_url second_page_malformed list_machines)) [P1]
           = JStr ''https://next/2''"
    and "getToken second_page_malformed (Suc (length [P1])) = Inr (Some ''tok'')"
    and "fetch second_page_malformed (length [P1])
           (cursor_after (JStr (azure_url second_page_malformed list_machines)) [P1])
           (page_requestOptions (azure_headers ''tok'') ''tok'') = Inr (respond 200 ''<html>'')"
    and "JSON_parse second_page_malformed ''<html>'' = None"
    and "JStr ''https://next/2'' \<noteq> JStr (azure_url second_page_malformed list_machines)"
    and "collected (azure_url second_page_malformed list_machines)
           (JStr (azure_url second_page_malformed list_machines)) [P1] = [JStr ''a'', JStr ''b'']"
proof -
  show "azure_ready second_page_malformed example_helper ''tok''"
    by (simp add: second_page_malformed_def example_ready)
  show "serves second_page_malformed (azure_headers ''tok'') 0
           (JStr (azure_url second_page_malformed list_machines)) [P1]"
    using example_first_url [of "\<lambda>url. if url = JStr ''https://next/2''
                                        then respond 200 ''<html>'' else respond 200 ''P1''"]
    by (simp add: P1_def second_page_malformed_def serves_page_def backend_def respond_def
        parse_body_def example_parse_def next_cursor_def azure_url_def)
  show "cursor_after (JStr (azure_url second_page_malformed list_machines)) [P1]
           = JStr ''https://next/2''"
    by (simp add: P1_def next_cursor_def)
  show "getToken second_page_malformed (Suc (length [P1])) = Inr (Some ''tok'')"
    by (simp add: second_page_malformed_def backend_def)
  show "fetch second_page_malformed (length [P1])
           (cursor_after (JStr (azure_url second_page_malformed list_machines)) [P1])
           (page_requestOptions (azure_headers ''tok'') ''tok'') = Inr (respond 200 ''<html>'')"
    by (simp add: P1_def next_cursor_def second_page_malformed_def backend_def)
  show "JSON_parse second_page_malformed ''<html>'' = None"
    by (simp add: second_page_malformed_def backend_def example_parse_def)
  show "JStr ''https://next/2'' \<noteq> JStr (azure_url second_page_malformed list_machines)"
    using example_first_url [of "\<lambda>url. if url = JStr ''https://next/2''
                                        then respond 200 ''<html>'' else respond 200 ''P1''"]
    by (simp add: second_page_malformed_def)
  show "collected (azure_url second_page_malformed list_machines)
           (JStr (azure_url second_page_malformed list_machines)) [P1] = [JStr ''a'', JStr ''b'']"
    by (simp add: P1_def page_items_def)
qed

text \<open>
  C6, as stated, fails mid-pagination: the first page is \<^verbatim>\<open>P1\<close>, the second page answers
  200 with a body that is not JSON, and the call returns a success result holding the items
  of the first page, not an error result.
\<close>

theorem azure_malformed_page_counterexample:
  "JSON_parse second_page_malformed (body_text (respond 200 ''<html>'')) = None
   \<and> fetch second_page_malformed 1 (JStr ''https://next/2'')
        (page_requestOptions (azure_headers ''tok'') ''tok'') = Inr (respond 200 ''<html>'')
   \<and> map_option fst (callAzureApi second_page_malformed example_helper list_machines) =
       Some (Returns \<lparr>data = JObj [(''allValues'', JArr [JStr ''a'', JStr ''b''])],
             error = None, statusCode = None\<rparr>)"
proof -
  note f = second_page_malformed_facts
  have b: "body_text (respond 200 ''<html>'') \<noteq> []"
      "JSON_parse second_page_malformed (body_text (respond 200 ''<html>'')) = None"
      "ok (respond 200 ''<html>'')"
    using f(6) by (simp_all add: respond_def)
  have t: "truthy (cursor_after (JStr (azure_url second_page_malformed list_machines))
             [JObj [(''value'', JArr [JStr ''a'', JStr ''b'']),
                    (''nextLink'', JStr ''https://next/2'')]])"
    unfolding f(3) by simp
  have g: "fetch second_page_malformed 1 (JStr ''https://next/2'')
        (page_requestOptions (azure_headers ''tok'') ''tok'') = Inr (respond 200 ''<html>'')"
    using f(5) unfolding f(3) by simp
  from azure_fetchAll_malformed [OF f(1) list_machines_fetchAll f(2) t f(4) _ f(5) b(3) b(1) b(2)]
  have "map_option fst (callAzureApi second_page_malformed example_helper list_machines) =
          Some (Returns (api_success (JObj [(''allValues'', JArr [JStr ''a'', JStr ''b''])])))"
    unfolding f(3) f(8) using f(7) by simp
  with b(2) g show ?thesis
    by (simp add: api_success_def)
qed

text \<open>
  C6, amended. A resource-management response whose body is not valid JSON has its payload
  degraded to \<^verbatim>\<open>{ rawResponse: text }\<close> and the call does not fail on that account. On a single
  fetch the wrapper is the data when the status is 2xx, and is printed into the error
  message when it is not. During \<^verbatim>\<open>fetchAll\<close> a 2xx page with such a body ends the aggregation
  with a success result: the wrapper is its last item when the page was fetched at the first
  URL, and is left out on a later page, where the result holds the items gathered so far.
\<close>

theorem azure_malformed_body_degrades:
  assumes "azure_ready w h token"
    and "body_text response \<noteq> []" and "JSON_parse w (body_text response) = None"
  shows "(\<not> (flag (az_fetchAll p) \<and> az_method p = GET) \<longrightarrow>
          fetch w 0 (JStr (azure_url w p)) (azure_requestOptions w p (azure_headers token))
            = Inr response \<longrightarrow>
          map_option fst (callAzureApi w h p) =
            Some (if ok response
                  then Returns (api_success (JObj [(''rawResponse'', JStr (body_text response))]))
                  else Returns (api_failure
                         (new_Error
                            (''API error ('' @ show_nat (status response) @ '') for Azure RM: ''
                             @ JSON_stringify w
                                 (JObj [(''rawResponse'', JStr (body_text response))]))))))
       \<and> (az_fetchAll p = Some True \<longrightarrow> az_method p = GET \<longrightarrow>
          serves w (azure_headers token) 0 (JStr (azure_url w p)) pages \<longrightarrow>
          truthy (cursor_after (JStr (azure_url w p)) pages) \<longrightarrow>
          getToken w (Suc (length pages)) = Inr (Some pageToken) \<longrightarrow> pageToken \<noteq> [] \<longrightarrow>
          fetch w (length pages) (cursor_after (JStr (azure_url w p)) pages)
            (page_requestOptions (azure_headers token) pageToken) = Inr response \<longrightarrow>
          ok response \<longrightarrow>
          map_option fst (callAzureApi w h p) =
            Some (Returns (api_success
                    (JObj [(''allValues'',
                            JArr (collected (azure_url w p) (JStr (azure_url w p)) pages
                                  @ (if cursor_after (JStr (azure_url w p)) pages
                                        = JStr (azure_url w p)
                                     then [JObj [(''rawResponse'', JStr (body_text response))]]
                                     else [])))]))))"
proof (intro conjI impI)
  assume "\<not> (flag (az_fetchAll p) \<and> az_method p = GET)"
    and "fetch w 0 (JStr (azure_url w p)) (azure_requestOptions w p (azure_headers token))
           = Inr response"
  then show "map_option fst (callAzureApi w h p) =
            Some (if ok response
                  then Returns (api_success (JObj [(''rawResponse'', JStr (body_text response))]))
                  else Returns (api_failure
                         (new_Error
                            (''API error ('' @ show_nat (status response) @ '') for Azure RM: ''
                             @ JSON_stringify w
                                 (JObj [(''rawResponse'', JStr (body_text response))])))))"
    by (rule azure_single_malformed [OF assms(1) _ _ assms(2,3)])
next
  assume "az_fetchAll p = Some True" "az_method p = GET"
    "serves w (azure_headers token) 0 (JStr (azure_url w p)) pages"
    "truthy (cursor_after (JStr (azure_url w p)) pages)"
    "getToken w (Suc (length pages)) = Inr (Some pageToken)" "pageToken \<noteq> []"
    "fetch w (length pages) (cursor_after (JStr (azure_url w p)) pages)
            (page_requestOptions (azure_headers token) pageToken) = Inr response"
    "ok response"
  then show "map_option fst (callAzureApi w h p) =
            Some (Returns (api_success
                    (JObj [(''allValues'',
                            JArr (collected (azure_url w p) (JStr (azure_url w p)) pages
                                  @ (if cursor_after (JStr (azure_url w p)) pages
                                        = JStr (azure_url w p)
                                     then [JObj [(''rawResponse'', JStr (body_text response))]]
                                     else [])))])))"
    by (rule azure_fetchAll_malformed [OF assms(1) _ _ _ _ _ _ _ _ assms(2,3)])
qed

theorem azure_malformed_body_degrades_witness:
  "map_option fst (callAzureApi second_page_malformed example_helper list_machines) =
     Some (Returns (api_success (JObj [(''allValues'', JArr [JStr ''a'', JStr ''b''])])))
   \<and> map_option fst
       (callAzureApi malformed_body example_helper (list_machines\<lparr>az_fetchAll := None\<rparr>)) =
     Some (Returns (api_success (JObj [(''rawResponse'', JStr ''<html>'')])))"
proof -
  note f = second_page_malformed_facts
  have b: "body_text (respond 200 ''<html>'') \<noteq> []"
      "JSON_parse second_page_malformed (body_text (respond 200 ''<html>'')) = None"
      "ok (respond 200 ''<html>'')"
    using f(6) by (simp_all add: respond_def)
  have t: "truthy (cursor_after (JStr (azure_url second_page_malformed list_machines))
             [JObj [(''value'', JArr [JStr ''a'', JStr ''b'']),
                    (''nextLink'', JStr ''https://next/2'')]])"
    unfolding f(3) by simp
  from azure_malformed_body_degrades [OF f(1) b(1) b(2), of list_machines
         "[JObj [(''value'', JArr [JStr ''a'', JStr ''b'']),
                 (''nextLink'', JStr ''https://next/2'')]]" "''tok''"]
       list_machines_fetchAll f(2) t f(4) f(5) b(3)
  have "map_option fst (callAzureApi second_page_malformed example_helper list_machines) =
          Some (Returns (api_success
                  (JObj [(''allValues'',
                          JArr (collected (azure_url second_page_malformed list_machines)
                                  (JStr (azure_url second_page_malformed list_machines))
                                  [JObj [(''value'', JArr [JStr ''a'', JStr ''b'']),
                                         (''nextLink'', JStr ''https://next/2'')]]
                                @ (if cursor_after
                                        (JStr (azure_url second_page_malformed list_machines))
                                        [JObj [(''value'', JArr [JStr ''a'', JStr ''b'']),
                                               (''nextLink'', JStr ''https://next/2'')]]
                                      = JStr (azure_url second_page_malformed list_machines)
                                   then [JObj [(''rawResponse'',
                                                JStr (body_text (respond 200 ''<html>'')))]]
                                   else [])))])))"
    by blast
  then have first: "map_option fst
                      (callAzureApi second_page_malformed example_helper list_machines) =
          Some (Returns (api_success (JObj [(''allValues'', JArr [JStr ''a'', JStr ''b''])])))"
    unfolding f(3) f(8) using f(7) by simp
  let ?p = "list_machines\<lparr>az_fetchAll := None\<rparr>"
  have r: "azure_ready malformed_body example_helper ''tok''"
    by (simp add: malformed_body_def example_ready)
  have m: "body_text (respond 200 ''<html>'') \<noteq> []"
      "JSON_parse malformed_body (body_text (respond 200 ''<html>'')) = None"
    by (simp_all add: respond_def malformed_body_def backend_def example_parse_def)
  have n: "\<not> (flag (az_fetchAll ?p) \<and> az_method ?p = GET)"
    by (simp add: flag_def)
  have g: "fetch malformed_body 0 (JStr (azure_url malformed_body ?p))
             (azure_requestOptions malformed_body ?p (azure_headers ''tok''))
           = Inr (respond 200 ''<html>'')"
    by (simp add: malformed_body_def backend_def)
  from azure_malformed_body_degrades [OF r m, of ?p] n g
  have "map_option fst (callAzureApi malformed_body example_helper ?p) =
          Some (Returns (api_success (JObj [(''rawResponse'', JStr ''<html>'')])))"
    by (simp add: respond_def)
  with first show ?thesis by simp
qed

subsection \<open>Returning a result\<close>

lemma api_failure_tagged: "tagged (api_failure e)"
  by (simp add: tagged_def api_failure_def)

lemma api_success_tagged: "tagged (api_success d)"
  by (simp add: tagged_def api_success_def)

lemma graph_catch_returns:
  "not_nullish e \<Longrightarrow> serializable_body e \<Longrightarrow> \<exists>r. graph_catch e = Returns r \<and> tagged r"
  by (cases e) (auto simp: api_failure_tagged split: error_body.splits)

lemma azure_catch_returns:
  "not_nullish e \<Longrightarrow> \<exists>r. azure_catch e = Returns r \<and> tagged r"
  by (cases e) (auto simp: api_failure_tagged)

lemma rethrow_fetchAll_readable:
  "not_nullish (rethrow_fetchAll e) \<and> serializable_body (rethrow_fetchAll e)"
  by (cases e) (simp_all add: new_Error_def nullish_TypeError_def Let_def)

lemma graph_fetchAll_throws:
  "graph_fetchAll w request = Inl e \<Longrightarrow> not_nullish e \<and> serializable_body e"
  by (auto simp: graph_fetchAll_def rethrow_fetchAll_readable
      simp del: rethrow_fetchAll.simps split: sum.splits)

lemma graph_switch_throws:
  assumes "graph_switch w h g = (Inl e, sent)"
    and "\<forall>request e. graph_send w request = Inl e \<longrightarrow> not_nullish e \<and> serializable_body e"
  shows "not_nullish e \<and> serializable_body e"
proof (cases "g_method g")
  case GET
  with assms show ?thesis
    by (auto simp: graph_switch_def Let_def dest: graph_fetchAll_throws split: if_splits)
next
  case POST
  with assms show ?thesis by (auto simp: graph_switch_def Let_def)
next
  case PUT
  with assms show ?thesis by (auto simp: graph_switch_def Let_def)
next
  case PATCH
  with assms show ?thesis by (auto simp: graph_switch_def Let_def)
next
  case DELETE
  with assms show ?thesis
    by (auto simp: graph_switch_def Let_def split: sum.splits if_splits)
qed

lemma callGraphApi_returns:
  assumes "\<forall>request e. graph_send w request = Inl e \<longrightarrow> not_nullish e \<and> serializable_body e"
  shows "\<exists>r. fst (callGraphApi w h g) = Returns r \<and> tagged r"
proof (cases "graphClient h")
  case None
  then show ?thesis
    by (simp add: callGraphApi_def api_failure_tagged new_Error_def)
next
  case (Some client)
  obtain r sent where s: "graph_switch w h g = (r, sent)"
    by (cases "graph_switch w h g")
  show ?thesis
  proof (cases r)
    case (Inl e)
    from graph_switch_throws [OF s [unfolded Inl] assms]
    have "\<exists>r. graph_catch e = Returns r \<and> tagged r"
      by (simp add: graph_catch_returns)
    with Some s Inl show ?thesis by (simp add: callGraphApi_def)
  next
    case (Inr responseData)
    with Some s show ?thesis by (simp add: callGraphApi_def api_success_tagged)
  qed
qed

lemma fetch_azure_page_throws:
  assumes "fetch_azure_page w headers url n currentUrl allValues sent = (Inl e, sent')"
    and "\<forall>k e. getToken w k = Inl e \<longrightarrow> not_nullish e"
    and "\<forall>k u init e. fetch w k u init = Inl e \<longrightarrow> not_nullish e"
  shows "not_nullish e"
  using assms
  by (auto simp: fetch_azure_page_def Let_def
      split: sum.splits option.splits if_splits)

lemma azure_pages_throws:
  assumes returns: "azure_pages w headers url n currentUrl allValues sent = Some y"
  shows "(\<forall>k e. getToken w k = Inl e \<longrightarrow> not_nullish e) \<longrightarrow>
         (\<forall>k u init e. fetch w k u init = Inl e \<longrightarrow> not_nullish e) \<longrightarrow>
         (\<forall>e sent'. y = (Inl e, sent') \<longrightarrow> not_nullish e)"
proof (rule azure_pages.raw_induct
         [where P = "\<lambda>w headers url n currentUrl allValues sent y.
                       (\<forall>k e. getToken w k = Inl e \<longrightarrow> not_nullish e) \<longrightarrow>
                       (\<forall>k u init e. fetch w k u init = Inl e \<longrightarrow> not_nullish e) \<longrightarrow>
                       (\<forall>e sent'. y = (Inl e, sent') \<longrightarrow> not_nullish e)", OF _ returns])
  fix f w headers url n currentUrl allValues sent y
  assume IH: "\<And>w' headers' url' n' currentUrl' allValues' sent' y'.
                f w' headers' url' n' currentUrl' allValues' sent' = Some y' \<Longrightarrow>
                (\<forall>k e. getToken w' k = Inl e \<longrightarrow> not_nullish e) \<longrightarrow>
                (\<forall>k u init e. fetch w' k u init = Inl e \<longrightarrow> not_nullish e) \<longrightarrow>
                (\<forall>e sent''. y' = (Inl e, sent'') \<longrightarrow> not_nullish e)"
    and eq: "(if truthy currentUrl
              then case fetch_azure_page w headers url n currentUrl allValues sent of
                     (Inl e, sent') \<Rightarrow> Some (Inl e, sent')
                   | (Inr (allValues', nextUrl), sent') \<Rightarrow>
                       f w headers url (Suc n) nextUrl allValues' sent'
              else Some (Inr allValues, sent)) = Some y"
  show "(\<forall>k e. getToken w k = Inl e \<longrightarrow> not_nullish e) \<longrightarrow>
        (\<forall>k u init e. fetch w k u init = Inl e \<longrightarrow> not_nullish e) \<longrightarrow>
        (\<forall>e sent'. y = (Inl e, sent') \<longrightarrow> not_nullish e)"
  proof (intro impI allI)
    fix e sent'
    assume t: "\<forall>k e. getToken w k = Inl e \<longrightarrow> not_nullish e"
      and ft: "\<forall>k u init e. fetch w k u init = Inl e \<longrightarrow> not_nullish e"
      and y: "y = (Inl e, sent')"
    show "not_nullish e"
    proof (cases "truthy currentUrl")
      case False
      with eq y show ?thesis by simp
    next
      case True
      obtain r s where step:
        "fetch_azure_page w headers url n currentUrl allValues sent = (r, s)"
        by (cases "fetch_azure_page w headers url n currentUrl allValues sent")
      show ?thesis
      proof (cases r)
        case (Inl e')
        with eq True step y have "e' = e" by simp
        with fetch_azure_page_throws [OF step [unfolded Inl] t ft] show ?thesis by simp
      next
        case (Inr advance)
        obtain allValues' nextUrl where a: "advance = (allValues', nextUrl)"
          by (cases advance)
        from eq True step Inr a
        have "f w headers url (Suc n) nextUrl allValues' s = Some y" by simp
        from IH [OF this] t ft y show ?thesis by blast
      qed
    qed
  qed
qed

lemma callAzureApi_tagged:
  assumes "callAzureApi w h a = Some (outcome, sent)"
    and c: "\<forall>e. getAzureCredential w = Inl e \<longrightarrow> not_nullish e"
    and t: "\<forall>k e. getToken w k = Inl e \<longrightarrow> not_nullish e"
    and f: "\<forall>k u init e. fetch w k u init = Inl e \<longrightarrow> not_nullish e"
  shows "\<exists>r. outcome = Returns r \<and> tagged r"
proof -
  have ok: "\<exists>r. azure_catch e = Returns r \<and> tagged r" if "not_nullish e" for e
    using that by (rule azure_catch_returns)
  have new: "\<exists>r. azure_catch (Thrown e) = Returns r \<and> tagged r" for e
    by (simp add: api_failure_tagged)
  have single: "not_nullish e"
    if "azure_single w u init = (Inl e, s)" for u init e s
    using that f by (auto simp: azure_single_def Let_def split: sum.splits if_splits)
  have pages: "not_nullish e"
    if "azure_pages w hs u 0 (JStr u) [] [] = Some (Inl e, s)" for hs u e s
    using azure_pages_throws [OF that] t f by blast
  from assms(1) show ?thesis
    using ok new c t single pages
    by (auto simp: callAzureApi_def Let_def api_success_tagged
        split: option.splits sum.splits if_splits prod.splits)
qed

lemma azure_pages_ends:
  "ends_within w headers url k n currentUrl allValues sent \<Longrightarrow>
   \<exists>y. azure_pages w headers url n currentUrl allValues sent = Some y"
proof (induction k arbitrary: n currentUrl allValues sent)
  case 0
  then show ?case by (simp add: azure_pages_stop)
next
  case (Suc k)
  show ?case
  proof (cases "truthy currentUrl")
    case False
    then show ?thesis by (simp add: azure_pages_stop)
  next
    case True
    obtain r sent' where step:
      "fetch_azure_page w headers url n currentUrl allValues sent = (r, sent')"
      by (cases "fetch_azure_page w headers url n currentUrl allValues sent")
    show ?thesis
    proof (cases r)
      case (Inl e)
      with azure_pages_throw [OF True] step show ?thesis by blast
    next
      case (Inr advance)
      obtain allValues' nextUrl where n: "advance = (allValues', nextUrl)"
        by (cases advance)
      from Suc.prems True step Inr n
      have "ends_within w headers url k (Suc n) nextUrl allValues' sent'"
        by simp
      from Suc.IH [OF this] azure_pages_next [OF True step [unfolded Inr n]]
      show ?thesis by simp
    qed
  qed
qed

lemma callAzureApi_returns:
  assumes "\<not> (flag (az_fetchAll p) \<and> az_method p = GET)
           \<or> (\<forall>token. getToken w 0 = Inr (Some token) \<longrightarrow>
                 ends_within w (azure_headers token) (azure_url w p) k 0
                   (JStr (azure_url w p)) [] [])"
  shows "\<exists>outcome sent. callAzureApi w h p = Some (outcome, sent)"
proof (cases "callAzureApi w h p")
  case (Some y)
  then show ?thesis by (cases y) simp
next
  case None
  then obtain token where t: "getToken w 0 = Inr (Some token)"
    and f: "flag (az_fetchAll p) \<and> az_method p = GET"
    and l: "azure_pages w (azure_headers token) (azure_url w p) 0 (JStr (azure_url w p)) [] []
              = None"
    by (auto simp: callAzureApi_def Let_def
        split: option.splits sum.splits if_splits prod.splits)
  from assms f t
  have "ends_within w (azure_headers token) (azure_url w p) k 0 (JStr (azure_url w p)) [] []"
    by blast
  from azure_pages_ends [OF this] l show ?thesis by simp
qed

lemma endless_page:
  "truthy currentUrl \<Longrightarrow>
   \<exists>allValues' sent'. fetch_azure_page endless headers url n currentUrl allValues sent =
      (Inr (allValues', JStr ''https://next/2''), sent')"
  by (simp add: fetch_azure_page_def endless_def backend_def respond_def parse_body_def
      example_parse_def Let_def)

lemma endless_pages_never_end:
  assumes returns: "azure_pages w headers url n currentUrl allValues sent = Some y"
  shows "w = endless \<longrightarrow> truthy currentUrl \<longrightarrow> False"
proof (rule azure_pages.raw_induct
         [where P = "\<lambda>w headers url n currentUrl allValues sent y.
                       w = endless \<longrightarrow> truthy currentUrl \<longrightarrow> False", OF _ returns])
  fix f w headers url n currentUrl allValues sent y
  assume IH: "\<And>w' headers' url' n' currentUrl' allValues' sent' y'.
                f w' headers' url' n' currentUrl' allValues' sent' = Some y' \<Longrightarrow>
                w' = endless \<longrightarrow> truthy currentUrl' \<longrightarrow> False"
    and eq: "(if truthy currentUrl
              then case fetch_azure_page w headers url n currentUrl allValues sent of
                     (Inl e, sent') \<Rightarrow> Some (Inl e, sent')
                   | (Inr (allValues', nextUrl), sent') \<Rightarrow>
                       f w headers url (Suc n) nextUrl allValues' sent'
              else Some (Inr allValues, sent)) = Some y"
  show "w = endless \<longrightarrow> truthy currentUrl \<longrightarrow> False"
  proof (intro impI)
    assume w: "w = endless" and t: "truthy currentUrl"
    from endless_page [OF t, of headers url n allValues sent]
    obtain allValues' sent' where
      "fetch_azure_page endless headers url n currentUrl allValues sent =
         (Inr (allValues', JStr ''https://next/2''), sent')"
      by blast
    with eq w t
    have "f endless headers url (Suc n) (JStr ''https://next/2'') allValues' sent' = Some y"
      by simp
    from IH [OF this] show False by simp
  qed
qed

text \<open>
  C4, as stated, fails for \<^verbatim>\<open>callAzureApi\<close>: against a backend whose every page is a 2xx page
  with a truthy \<^verbatim>\<open>nextLink\<close>, a \<^verbatim>\<open>fetchAll\<close> get never leaves the loop, so the call returns
  no result value.
\<close>

theorem azure_fetchAll_endless_counterexample:
  "callAzureApi endless example_helper list_machines = None"
proof -
  have r: "azure_ready endless example_helper ''tok''"
    by (simp add: endless_def example_ready)
  have "azure_pages endless (azure_headers ''tok'') (azure_url endless list_machines) 0
          (JStr (azure_url endless list_machines)) [] [] = None"
  proof (rule ccontr)
    assume "azure_pages endless (azure_headers ''tok'') (azure_url endless list_machines) 0
              (JStr (azure_url endless list_machines)) [] [] \<noteq> None"
    then obtain y where
      "azure_pages endless (azure_headers ''tok'') (azure_url endless list_machines) 0
         (JStr (azure_url endless list_machines)) [] [] = Some y"
      by blast
    from endless_pages_never_end [OF this] truthy_azure_url [of endless list_machines]
    show False by simp
  qed
  then show ?thesis
    by (simp add: callAzureApi_fetchAll [OF r list_machines_fetchAll])
qed

text \<open>
  The two \<^verbatim>\<open>catch\<close> blocks can themselves throw, and then the call raises. A request rejected
  with \<^verbatim>\<open>null\<close> makes \<^verbatim>\<open>callGraphApi\<close> raise on \<^verbatim>\<open>error.body\<close> and \<^verbatim>\<open>callAzureApi\<close> raise on
  \<^verbatim>\<open>error.statusCode\<close>; an SDK error with a circular body makes \<^verbatim>\<open>callGraphApi\<close> raise in
  \<^verbatim>\<open>JSON.stringify(error.body)\<close>. Inside the Graph \<^verbatim>\<open>fetchAll\<close> branch the inner \<^verbatim>\<open>catch\<close>
  replaces what was thrown, so that call returns an error result.
\<close>

lemma catch_blocks_raise:
  "fst (callGraphApi (rejecting ThrownNull) example_helper (list_users\<lparr>g_fetchAll := None\<rparr>))
     = Raises (nullish_TypeError ''null'' ''body'')
   \<and> map_option fst
       (callAzureApi (rejecting ThrownNull) example_helper (list_machines\<lparr>az_fetchAll := None\<rparr>))
     = Some (Raises (nullish_TypeError ''null'' ''statusCode''))
   \<and> fst (callGraphApi (rejecting (Thrown circular_error)) example_helper
            (list_users\<lparr>g_fetchAll := None\<rparr>))
     = Raises (new_TypeError ''Converting circular structure to JSON'')
   \<and> fst (callGraphApi (rejecting ThrownNull) example_helper list_users)
     = Returns (api_failure (nullish_TypeError ''null'' ''message''))"
proof -
  have r: "azure_ready (rejecting ThrownNull) example_helper ''tok''"
    by (simp add: azure_ready_def rejecting_def example_helper_def)
  have n: "\<not> (flag (az_fetchAll (list_machines\<lparr>az_fetchAll := None\<rparr>))
              \<and> az_method (list_machines\<lparr>az_fetchAll := None\<rparr>) = GET)"
    by (simp add: flag_def)
  have a: "map_option fst
             (callAzureApi (rejecting ThrownNull) example_helper
                (list_machines\<lparr>az_fetchAll := None\<rparr>))
           = Some (Raises (nullish_TypeError ''null'' ''statusCode''))"
  proof -
    have "fetch (rejecting ThrownNull) k u init = Inl ThrownNull" for k u init
      by (simp add: rejecting_def)
    then show ?thesis
      by (simp add: callAzureApi_single [OF r n] azure_single_def)
  qed
  have g: "fst (callGraphApi (rejecting ThrownNull) example_helper
                  (list_users\<lparr>g_fetchAll := None\<rparr>))
           = Raises (nullish_TypeError ''null'' ''body'')"
    by (simp add: callGraphApi_def graph_switch_def example_helper_def list_users_def
        rejecting_def flag_def Let_def)
  have c: "fst (callGraphApi (rejecting (Thrown circular_error)) example_helper
                  (list_users\<lparr>g_fetchAll := None\<rparr>))
           = Raises (new_TypeError ''Converting circular structure to JSON'')"
    by (simp add: callGraphApi_def graph_switch_def example_helper_def list_users_def
        rejecting_def flag_def Let_def circular_error_def)
  have i: "fst (callGraphApi (rejecting ThrownNull) example_helper list_users)
           = Returns (api_failure (nullish_TypeError ''null'' ''message''))"
    by (simp add: callGraphApi_def graph_switch_def graph_fetchAll_def example_helper_def
        list_users_def rejecting_def flag_def Let_def nullish_TypeError_def)
  from g a c i show ?thesis by simp
qed

text \<open>
  C4, amended. When every value the SDK throws is neither \<^verbatim>\<open>null\<close> nor \<^verbatim>\<open>undefined\<close> and has a
  body that \<^verbatim>\<open>JSON.stringify\<close> serializes, \<^verbatim>\<open>callGraphApi\<close> returns a tagged result. When every
  value the credential accessor, the token provider and fetch throw is neither \<^verbatim>\<open>null\<close> nor
  \<^verbatim>\<open>undefined\<close>, \<^verbatim>\<open>callAzureApi\<close> returns a tagged result for every call that is not a
  \<^verbatim>\<open>fetchAll\<close> get, and for a \<^verbatim>\<open>fetchAll\<close> get whose pagination ends within some number of
  pages. Before initialization the results are
  \<^verbatim>\<open>{ data: null, error: "Graph client not initialized" }\<close> and
  \<^verbatim>\<open>{ data: null, error: "Auth manager not initialized" }\<close>, and nothing is sent.
\<close>

theorem dispatch_returns_tagged_result:
  "((\<forall>request e. graph_send w request = Inl e \<longrightarrow> not_nullish e \<and> serializable_body e) \<longrightarrow>
      (\<exists>r. fst (callGraphApi w h g) = Returns r \<and> tagged r))
   \<and> (graphClient h = None \<longrightarrow>
        callGraphApi w h g =
          (Returns \<lparr>data = JNull, error = Some ''Graph client not initialized'',
                     statusCode = None\<rparr>, []))
   \<and> (authManager h = None \<longrightarrow>
        callAzureApi w h a =
          Some (Returns \<lparr>data = JNull, error = Some ''Auth manager not initialized'',
                          statusCode = None\<rparr>, []))
   \<and> ((\<forall>e. getAzureCredential w = Inl e \<longrightarrow> not_nullish e) \<longrightarrow>
       (\<forall>k e. getToken w k = Inl e \<longrightarrow> not_nullish e) \<longrightarrow>
       (\<forall>k u init e. fetch w k u init = Inl e \<longrightarrow> not_nullish e) \<longrightarrow>
       \<not> (flag (az_fetchAll a) \<and> az_method a = GET)
        \<or> (\<forall>token. getToken w 0 = Inr (Some token) \<longrightarrow>
              ends_within w (azure_headers token) (azure_url w a) k 0 (JStr (azure_url w a)) [] [])
        \<longrightarrow> (\<exists>r sent. callAzureApi w h a = Some (Returns r, sent) \<and> tagged r))"
proof (intro conjI impI)
  assume "\<forall>request e. graph_send w request = Inl e \<longrightarrow> not_nullish e \<and> serializable_body e"
  then show "\<exists>r. fst (callGraphApi w h g) = Returns r \<and> tagged r"
    by (rule callGraphApi_returns)
next
  assume "graphClient h = None"
  then show "callGraphApi w h g =
          (Returns \<lparr>data = JNull, error = Some ''Graph client not initialized'',
                     statusCode = None\<rparr>, [])"
    by (simp add: callGraphApi_def api_failure_def new_Error_def)
next
  assume "authManager h = None"
  then show "callAzureApi w h a =
          Some (Returns \<lparr>data = JNull, error = Some ''Auth manager not initialized'',
                          statusCode = None\<rparr>, [])"
    by (simp add: callAzureApi_def api_failure_def new_Error_def)
next
  assume c: "\<forall>e. getAzureCredential w = Inl e \<longrightarrow> not_nullish e"
    and t: "\<forall>k e. getToken w k = Inl e \<longrightarrow> not_nullish e"
    and f: "\<forall>k u init e. fetch w k u init = Inl e \<longrightarrow> not_nullish e"
    and e: "\<not> (flag (az_fetchAll a) \<and> az_method a = GET)
        \<or> (\<forall>token. getToken w 0 = Inr (Some token) \<longrightarrow>
              ends_within w (azure_headers token) (azure_url w a) k 0 (JStr (azure_url w a)) [] [])"
  from callAzureApi_returns [OF e, of h]
  obtain outcome sent where s: "callAzureApi w h a = Some (outcome, sent)"
    by blast
  from callAzureApi_tagged [OF s c t f] s
  show "\<exists>r sent. callAzureApi w h a = Some (Returns r, sent) \<and> tagged r"
    by blast
qed

theorem dispatch_returns_tagged_result_witness:
  "fst (callGraphApi (rejecting (Thrown (new_Error ''socket hang up''))) example_helper
          (list_users\<lparr>g_fetchAll := None\<rparr>))
     = Returns \<lparr>data = JNull, error = Some ''socket hang up'', statusCode = None\<rparr>
   \<and> callGraphApi two_pages uninitialized_helper list_users =
       (Returns \<lparr>data = JNull, error = Some ''Graph client not initialized'',
                  statusCode = None\<rparr>, [])
   \<and> callAzureApi two_pages uninitialized_helper list_machines =
       Some (Returns \<lparr>data = JNull, error = Some ''Auth manager not initialized'',
                       statusCode = None\<rparr>, [])
   \<and> (\<exists>r sent. callAzureApi two_pages example_helper list_machines = Some (Returns r, sent)
                \<and> tagged r)
   \<and> (\<exists>r sent. callAzureApi (rejecting (Thrown (new_Error ''socket hang up''))) example_helper
                  (list_machines\<lparr>az_method := DELETE\<rparr>) = Some (Returns r, sent)
                \<and> tagged r \<and> error r = Some ''socket hang up'')"
proof -
  let ?down = "rejecting (Thrown (new_Error ''socket hang up''))"
  let ?g = "list_users\<lparr>g_fetchAll := None\<rparr>"
  let ?d = "list_machines\<lparr>az_method := DELETE\<rparr>"
  have u: "graphClient uninitialized_helper = None" "authManager uninitialized_helper = None"
    by (simp_all add: uninitialized_helper_def)
  have gs: "\<forall>request e. graph_send ?down request = Inl e \<longrightarrow> not_nullish e \<and> serializable_body e"
    by (simp add: rejecting_def new_Error_def)
  have down: "\<forall>e. getAzureCredential ?down = Inl e \<longrightarrow> not_nullish e"
      "\<forall>k e. getToken ?down k = Inl e \<longrightarrow> not_nullish e"
      "\<forall>k u init e. fetch ?down k u init = Inl e \<longrightarrow> not_nullish e"
    by (simp_all add: rejecting_def)
  have two: "\<forall>e. getAzureCredential two_pages = Inl e \<longrightarrow> not_nullish e"
      "\<forall>k e. getToken two_pages k = Inl e \<longrightarrow> not_nullish e"
      "\<forall>k u init e. fetch two_pages k u init = Inl e \<longrightarrow> not_nullish e"
    by (simp_all add: two_pages_def backend_def)
  have e: "\<forall>token. getToken two_pages 0 = Inr (Some token) \<longrightarrow>
             ends_within two_pages (azure_headers token) (azure_url two_pages list_machines)
               (Suc (Suc 0)) 0 (JStr (azure_url two_pages list_machines)) [] []"
    using example_first_url [of "\<lambda>url. if url = JStr ''https://next/2'' then respond 200 ''P2''
                               else respond 200 ''P1''"]
    by (simp add: two_pages_def backend_def fetch_azure_page_def respond_def parse_body_def
        example_parse_def Let_def azure_url_def)
  have d: "\<not> (flag (az_fetchAll ?d) \<and> az_method ?d = GET)"
    by simp
  note t1 = dispatch_returns_tagged_result [of ?down example_helper ?g ?d 0]
  note t2 = dispatch_returns_tagged_result [of two_pages uninitialized_helper list_users
              list_machines 0]
  note t3 = dispatch_returns_tagged_result [of two_pages example_helper list_users list_machines
              "Suc (Suc 0)"]
  from t1 gs obtain r where g1: "fst (callGraphApi ?down example_helper ?g) = Returns r"
    by blast
  have g2: "fst (callGraphApi ?down example_helper ?g)
              = Returns (api_failure (new_Error ''socket hang up''))"
    by (simp add: callGraphApi_def graph_switch_def example_helper_def list_users_def
        rejecting_def flag_def Let_def new_Error_def)
  from t1 down d obtain r' sent' where
    a1: "callAzureApi ?down example_helper ?d = Some (Returns r', sent')" "tagged r'"
    by blast
  have ready: "azure_ready ?down example_helper ''tok''"
    by (simp add: azure_ready_def rejecting_def example_helper_def)
  have a2: "map_option fst (callAzureApi ?down example_helper ?d)
              = Some (Returns (api_failure (new_Error ''socket hang up'')))"
  proof -
    have "fetch ?down k u init = Inl (Thrown (new_Error ''socket hang up''))" for k u init
      by (simp add: rejecting_def)
    then show ?thesis
      by (simp add: callAzureApi_single [OF ready d] azure_single_def)
  qed
  from a1 a2 have a3: "error r' = Some ''socket hang up''"
    by (simp add: api_failure_def new_Error_def)
  from t2 u t3 two e g1 g2 a1 a3 show ?thesis
    by (simp add: api_failure_def new_Error_def)
qed

subsection \<open>Methods other than get\<close>











subsection \<open>Updating the access token\<close>

text \<open>
  C9. In every mode other than \<open>ClientProvidedToken\<close> (and without a manager) the
  \<^verbatim>\<open>set-access-token\<close> handler answers with an error result and leaves the context, the manager
  and its token state included, as it was, and \<^verbatim>\<open>updateAccessToken\<close> itself signals
  \<^verbatim>\<open>InvalidOperationError\<close> and yields no new state. In \<open>ClientProvidedToken\<close> mode
  \<^verbatim>\<open>updateAccessToken\<close> replaces the held token and the optional expiry, and the handler
  succeeds, leaving that updated manager in the context with a client and a helper rebuilt
  on it.
\<close>

theorem updateAccessToken_only_client_provided:
  "(ctx_authManager ctx = None
      \<or> (\<exists>am. ctx_authManager ctx = Some am \<and> mode am \<noteq> ClientProvidedToken) \<longrightarrow>
      isError (fst (set_access_token ctx token expiresOnArg))
      \<and> snd (set_access_token ctx token expiresOnArg) = ctx)
   \<and> (mode am \<noteq> ClientProvidedToken \<longrightarrow>
        updateAccessToken am token expiry = Inl InvalidOperationError)
   \<and> (mode am = ClientProvidedToken \<longrightarrow>
        updateAccessToken am token expiry
          = Inr (am\<lparr>accessToken := Some token, expiresOn := expiry\<rparr>))
   \<and> (ctx_authManager ctx = Some am \<longrightarrow> mode am = ClientProvidedToken \<longrightarrow>
        \<not> isError (fst (set_access_token ctx token expiresOnArg))
        \<and> ctx_authManager (snd (set_access_token ctx token expiresOnArg))
            = Some (am\<lparr>accessToken := Some token,
                        expiresOn := (case expiresOnArg of
                                        Some isoString \<Rightarrow>
                                          if isoString \<noteq> [] then Some (Date isoString) else None
                                      | None \<Rightarrow> None)\<rparr>)
        \<and> map_option authManager (ctx_apiHelper (snd (set_access_token ctx token expiresOnArg)))
            = Some (ctx_authManager (snd (set_access_token ctx token expiresOnArg))))"
  by (auto simp: set_access_token_def updateAccessToken_def getAuthMode_def Let_def)

theorem updateAccessToken_only_client_provided_witness:
  "isError (fst (set_access_token (example_context Interactive) ''new'' None))
   \<and> snd (set_access_token (example_context Interactive) ''new'' None)
       = example_context Interactive
   \<and> updateAccessToken \<lparr>mode = Certificate, accessToken = Some ''old'', expiresOn = None\<rparr>
        ''new'' None = Inl InvalidOperationError
   \<and> \<not> isError (fst (set_access_token (example_context ClientProvidedToken) ''new''
                       (Some ''2030-01-01T00:00:00Z'')))
   \<and> ctx_authManager (snd (set_access_token (example_context ClientProvidedToken) ''new''
                              (Some ''2030-01-01T00:00:00Z'')))
       = Some \<lparr>mode = ClientProvidedToken, accessToken = Some ''new'',
               expiresOn = Some (Date ''2030-01-01T00:00:00Z'')\<rparr>"
  using updateAccessToken_only_client_provided
          [where ctx = "example_context Interactive"
             and am = "\<lparr>mode = Certificate, accessToken = Some ''old'', expiresOn = None\<rparr>"
             and token = "''new''" and expiresOnArg = None and expiry = None]
        updateAccessToken_only_client_provided
          [where ctx = "example_context ClientProvidedToken"
             and am = "\<lparr>mode = ClientProvidedToken, accessToken = Some ''old'',
                        expiresOn = None\<rparr>"
             and token = "''new''" and expiresOnArg = "Some ''2030-01-01T00:00:00Z''"
             and expiry = None]
  by (simp add: example_context_def)

end
